theory Spec2Isabelle
  imports Main "HOL-Library.Word"
begin

section \<open>The message size filter of gRPC core (message_size_filter.c)\<close>

text \<open>
  The filter enforces a maximum message size per direction.  A limit is a C \<open>int\<close>;
  a negative value means that no limit is set.  The C types of the file are modelled
  with their widths: \<open>int\<close> and \<open>int32_t\<close> are 32-bit words read as two's complement
  (\<open>sint\<close>, \<open>\<le>s\<close>, \<open><s\<close>), the \<open>length\<close> of a byte stream is an unsigned 32-bit
  word (it is printed with \<open>%u\<close>), and \<open>size_t\<close> is a 64-bit word.
\<close>

subsection \<open>C integers and constants\<close>

type_synonym c_int = "32 word"
type_synonym uint32_t = "32 word"
type_synonym size_t = "64 word"

definition INT_MAX :: c_int where
  "INT_MAX = 2147483647"

definition DEFAULT_MAX_SEND_MESSAGE_LENGTH :: c_int where
  "DEFAULT_MAX_SEND_MESSAGE_LENGTH = - 1"

definition DEFAULT_MAX_RECV_MESSAGE_LENGTH :: c_int where
  "DEFAULT_MAX_RECV_MESSAGE_LENGTH = 4 * 1024 * 1024"

subsection \<open>Per-method limits\<close>

record message_size_limits =
  limits_max_send_size :: c_int
  limits_max_recv_size :: c_int

text \<open>
  A method configuration as this file reads it: the two getters
  \<open>grpc_method_config_get_max_request_message_bytes\<close> and
  \<open>grpc_method_config_get_max_response_message_bytes\<close> return a pointer to an
  \<open>int32_t\<close> or \<open>NULL\<close>; the two fields hold what they return.
\<close>

record grpc_method_config =
  max_request_message_bytes :: "c_int option"
  max_response_message_bytes :: "c_int option"

definition method_config_convert_value :: "grpc_method_config \<Rightarrow> message_size_limits" where
  "method_config_convert_value method_config =
     \<lparr> limits_max_send_size =
         (case max_request_message_bytes method_config of Some v \<Rightarrow> v | None \<Rightarrow> - 1),
       limits_max_recv_size =
         (case max_response_message_bytes method_config of Some v \<Rightarrow> v | None \<Rightarrow> - 1) \<rparr>"

text \<open>Modelled from the spec: the type \<open>grpc_mdstr_hash_table\<close> is declared outside this
  file.  The spec describes the table as a mapping from method path to per-method values;
  it is an association list here.\<close>

type_synonym 'v mdstr_hash_table = "(string \<times> 'v) list"

text \<open>Modelled from the spec: \<open>grpc_method_config_table_get\<close> is defined outside this
  file.  The spec says that lookup is by exact string match on the method path, and that
  a path without an entry has no override.\<close>

definition grpc_method_config_table_get :: "'v mdstr_hash_table \<Rightarrow> string \<Rightarrow> 'v option" where
  "grpc_method_config_table_get table p = map_of table p"

text \<open>Modelled from the spec: \<open>grpc_method_config_table_convert\<close> is defined outside
  this file.  The spec says that the table of limits is built from the service
  configuration entry by entry, each method path keeping its converted value.\<close>

definition grpc_method_config_table_convert ::
  "'v mdstr_hash_table \<Rightarrow> ('v \<Rightarrow> 'w) \<Rightarrow> 'w mdstr_hash_table" where
  "grpc_method_config_table_convert table convert_value =
     map (\<lambda>(k, v). (k, convert_value v)) table"

subsection \<open>Channel data and call data\<close>

text \<open>
  Pointers: a \<open>grpc_byte_stream**\<close> is the address of a slot that holds a byte stream
  or \<open>NULL\<close>; a \<open>grpc_closure*\<close> points either to a closure owned by a caller or to the
  member \<open>recv_message_ready\<close> of this call's own \<open>call_data\<close>.  A pointer that is
  \<open>NULL\<close> is \<open>None\<close>.
\<close>

type_synonym addr = nat

datatype closure_ptr = CLOSURE nat | CALLD_RECV_MESSAGE_READY

record grpc_byte_stream =
  stream_length :: uint32_t

type_synonym store = "addr \<Rightarrow> grpc_byte_stream option"

definition empty_store :: store where
  "empty_store = (\<lambda>p. None)"

record call_data =
  calld_max_send_size :: c_int
  calld_max_recv_size :: c_int
  calld_recv_message :: "addr option"
  next_recv_message_ready :: "closure_ptr option"

record channel_data =
  chand_max_send_size :: c_int
  chand_max_recv_size :: c_int
  method_limit_table :: "message_size_limits mdstr_hash_table option"

record grpc_call_element_args =
  path :: string

subsection \<open>Errors\<close>

datatype grpc_status_code =
  GRPC_STATUS_OK | GRPC_STATUS_CANCELLED | GRPC_STATUS_UNKNOWN | GRPC_STATUS_INVALID_ARGUMENT

datatype grpc_error_ints = GRPC_ERROR_INT_GRPC_STATUS | GRPC_ERROR_INT_ERRNO

text \<open>Modelled from the spec: the type \<open>grpc_error\<close> is declared outside this file.  The
  spec describes an error with a message and a status class that can have other errors as
  its causes.  An error is a description, its integer attributes and its child errors;
  \<open>GRPC_ERROR_NONE\<close> is \<open>None\<close>.\<close>

datatype grpc_error =
  Error (err_description: string)
        (err_ints: "(grpc_error_ints \<times> grpc_status_code) list")
        (err_children: "grpc_error list")

text \<open>Modelled from the spec: \<open>GRPC_ERROR_CREATE\<close> is defined outside this file.  It
  makes an error with the given message and nothing else.\<close>

definition GRPC_ERROR_CREATE :: "string \<Rightarrow> grpc_error" where
  "GRPC_ERROR_CREATE desc = Error desc [] []"

text \<open>Modelled from the spec: \<open>grpc_error_set_int\<close> is defined outside this file.  It
  gives the error an integer attribute, here its status class, and keeps the rest.\<close>

definition grpc_error_set_int ::
  "grpc_error \<Rightarrow> grpc_error_ints \<Rightarrow> grpc_status_code \<Rightarrow> grpc_error" where
  "grpc_error_set_int src which v =
     Error (err_description src)
           ((which, v) # filter (\<lambda>kv. fst kv \<noteq> which) (err_ints src))
           (err_children src)"

text \<open>Modelled from the spec: \<open>grpc_error_add_child\<close> is defined outside this file.  The
  spec says that the two errors are combined into one failure that discards neither: the
  result is the first error with the second as a further child.\<close>

definition grpc_error_add_child :: "grpc_error \<Rightarrow> grpc_error \<Rightarrow> grpc_error" where
  "grpc_error_add_child src child =
     Error (err_description src) (err_ints src) (err_children src @ [child])"

subsection \<open>Constructor for call data\<close>

text \<open>
  \<open>init_call_elem\<close> writes into the memory of the call element: the argument
  \<open>calld\<close> is that memory before the call (the member \<open>recv_message\<close> is not
  written).  The result is the returned error and the call data afterwards.  The member
  \<open>recv_message_ready\<close>, initialised to run the callback of this file on this call
  element, is what \<open>CALLD_RECV_MESSAGE_READY\<close> points to.
\<close>

definition init_call_elem ::
  "channel_data \<Rightarrow> call_data \<Rightarrow> grpc_call_element_args \<Rightarrow> grpc_error option \<times> call_data" where
  "init_call_elem chand calld args =
     (let calld = calld\<lparr> next_recv_message_ready := None \<rparr>;
          calld = calld\<lparr> calld_max_send_size := chand_max_send_size chand \<rparr>;
          calld = calld\<lparr> calld_max_recv_size := chand_max_recv_size chand \<rparr>;
          calld =
            (case method_limit_table chand of
               None \<Rightarrow> calld
             | Some table \<Rightarrow>
                 (case grpc_method_config_table_get table (path args) of
                    None \<Rightarrow> calld
                  | Some limits \<Rightarrow>
                      (let calld =
                             (if 0 \<le>s limits_max_send_size limits \<and>
                                 (limits_max_send_size limits <s calld_max_send_size calld \<or>
                                  calld_max_send_size calld <s 0)
                              then calld\<lparr> calld_max_send_size := limits_max_send_size limits \<rparr>
                              else calld);
                           calld =
                             (if 0 \<le>s limits_max_recv_size limits \<and>
                                 (limits_max_recv_size limits <s calld_max_recv_size calld \<or>
                                  calld_max_recv_size calld <s 0)
                              then calld\<lparr> calld_max_recv_size := limits_max_recv_size limits \<rparr>
                              else calld)
                       in calld)))
      in (None, calld))"

subsection \<open>Formatting\<close>

text \<open>
  \<open>gpr_asprintf\<close> formats as \<open>printf\<close> does: \<open>%u\<close> prints an unsigned value in
  decimal, \<open>%d\<close> a signed one, with a minus sign when it is negative.
\<close>

fun dec_digits :: "nat \<Rightarrow> string" where
  "dec_digits n =
     (if n < 10 then [''0123456789'' ! n]
      else dec_digits (n div 10) @ [''0123456789'' ! (n mod 10)])"

declare dec_digits.simps [simp del]

definition printf_u :: "uint32_t \<Rightarrow> string" where
  "printf_u x = dec_digits (unat x)"

definition printf_d :: "c_int \<Rightarrow> string" where
  "printf_d x = (if x <s 0 then ''-'' @ dec_digits (nat (- sint x)) else dec_digits (nat (sint x)))"

subsection \<open>Operations and what the filter does to its surroundings\<close>

text \<open>
  A stream operation as this file uses it: the outgoing message, the slot for the
  incoming message and the closure to run when the incoming message is ready.  All other
  fields of \<open>grpc_transport_stream_op\<close> are the extension part of the record.

  The calls the filter makes are recorded in order: closing the call with a status and a
  message (\<open>grpc_call_element_send_close_with_message\<close>), handing an operation to the
  next filter (\<open>grpc_call_next_op\<close>) and scheduling a closure with an error
  (\<open>grpc_exec_ctx_sched\<close>).  The three callees are defined outside this file; each
  call is one entry of the record, with its arguments.
\<close>

record grpc_transport_stream_op =
  op_send_message :: "grpc_byte_stream option"
  op_recv_message :: "addr option"
  op_recv_message_ready :: "closure_ptr option"

datatype 'a effect =
    SEND_CLOSE_WITH_MESSAGE grpc_status_code string
  | CALL_NEXT_OP "'a grpc_transport_stream_op_scheme"
  | EXEC_CTX_SCHED "closure_ptr option" "grpc_error option"

datatype fault = GPR_ASSERT_FAILED | INVALID_POINTER

subsection \<open>Callback invoked when a message is received\<close>

text \<open>
  \<open>mem\<close> is the memory of the message slots when the callback runs.  Reading through
  \<open>calld->recv_message\<close> when it holds no valid address is a fault.
\<close>

definition recv_message_ready ::
  "store \<Rightarrow> call_data \<Rightarrow> grpc_error option \<Rightarrow> fault + (call_data \<times> 'a effect list)" where
  "recv_message_ready mem calld error =
     (case calld_recv_message calld of
        None \<Rightarrow> Inl INVALID_POINTER
      | Some p \<Rightarrow>
          (let error =
                 (case mem p of
                    None \<Rightarrow> error
                  | Some m \<Rightarrow>
                      if 0 \<le>s calld_max_recv_size calld \<and>
                         (scast (calld_max_recv_size calld) :: size_t) < ucast (stream_length m)
                      then
                        (let message_string =
                               ''Received message larger than max ('' @
                               printf_u (stream_length m) @ '' vs. '' @
                               printf_d (calld_max_recv_size calld) @ '')'';
                             new_error =
                               grpc_error_set_int (GRPC_ERROR_CREATE message_string)
                                 GRPC_ERROR_INT_GRPC_STATUS GRPC_STATUS_INVALID_ARGUMENT
                         in (case error of
                               None \<Rightarrow> Some new_error
                             | Some e \<Rightarrow> Some (grpc_error_add_child e new_error)))
                      else error)
           in Inr (calld, [EXEC_CTX_SCHED (next_recv_message_ready calld) error])))"

subsection \<open>Start transport stream op\<close>

definition start_transport_stream_op ::
  "call_data \<Rightarrow> 'a grpc_transport_stream_op_scheme \<Rightarrow> call_data \<times> 'a effect list" where
  "start_transport_stream_op calld op =
     (let closed =
            (case op_send_message op of
               None \<Rightarrow> []
             | Some m \<Rightarrow>
                 if 0 \<le>s calld_max_send_size calld \<and>
                    (scast (calld_max_send_size calld) :: size_t) < ucast (stream_length m)
                 then
                   (let message_string =
                          ''Sent message larger than max ('' @
                          printf_u (stream_length m) @ '' vs. '' @
                          printf_d (calld_max_send_size calld) @ '')''
                    in [SEND_CLOSE_WITH_MESSAGE GRPC_STATUS_INVALID_ARGUMENT message_string])
                 else []);
          (calld, op) =
            (case op_recv_message_ready op of
               None \<Rightarrow> (calld, op)
             | Some cb \<Rightarrow>
                 (calld\<lparr> next_recv_message_ready := Some cb,
                         calld_recv_message := op_recv_message op \<rparr>,
                  op\<lparr> op_recv_message_ready := Some CALLD_RECV_MESSAGE_READY \<rparr>))
      in (calld, closed @ [CALL_NEXT_OP op]))"

subsection \<open>Destructor for call data\<close>

definition destroy_call_elem :: "call_data \<Rightarrow> call_data \<times> 'a effect list" where
  "destroy_call_elem calld = (calld, [])"

subsection \<open>Constructor for channel data\<close>

text \<open>
  A channel argument has a key and a typed value.  The pointer of a pointer argument is
  used by this file only as a table of method configurations.
\<close>

datatype grpc_arg_value =
    GRPC_ARG_STRING string
  | GRPC_ARG_INTEGER c_int
  | GRPC_ARG_POINTER "grpc_method_config mdstr_hash_table"

record grpc_arg =
  key :: string
  arg_value :: grpc_arg_value

record grpc_integer_options =
  default_value :: c_int
  min_value :: c_int
  max_value :: c_int

record grpc_channel_element_args =
  channel_args :: "grpc_arg list"
  is_last :: bool

text \<open>Modelled from the spec: the macro \<open>GRPC_ARG_MAX_SEND_MESSAGE_LENGTH\<close> is defined
  outside this file; the spec names the key \<open>max_send_message_length\<close>.\<close>

definition GRPC_ARG_MAX_SEND_MESSAGE_LENGTH :: string where
  "GRPC_ARG_MAX_SEND_MESSAGE_LENGTH = ''max_send_message_length''"

text \<open>Modelled from the spec: the macro \<open>GRPC_ARG_MAX_RECEIVE_MESSAGE_LENGTH\<close> is defined
  outside this file; the spec names the key \<open>max_receive_message_length\<close>.\<close>

definition GRPC_ARG_MAX_RECEIVE_MESSAGE_LENGTH :: string where
  "GRPC_ARG_MAX_RECEIVE_MESSAGE_LENGTH = ''max_receive_message_length''"

text \<open>Modelled from the spec: the macro \<open>GRPC_ARG_SERVICE_CONFIG\<close> is defined outside
  this file; the spec names the key \<open>service_config\<close>.\<close>

definition GRPC_ARG_SERVICE_CONFIG :: string where
  "GRPC_ARG_SERVICE_CONFIG = ''service_config''"

text \<open>Modelled from the spec: \<open>grpc_channel_arg_get_integer\<close> is defined outside this
  file.  The spec says that a value supplied under an integer key is clamped to the range
  of the options, and that the default applies when no value is supplied; an argument
  that carries no integer supplies none.\<close>

definition grpc_channel_arg_get_integer :: "grpc_arg \<Rightarrow> grpc_integer_options \<Rightarrow> c_int" where
  "grpc_channel_arg_get_integer arg options =
     (case arg_value arg of
        GRPC_ARG_INTEGER v \<Rightarrow>
          (if v <s min_value options then min_value options
           else if max_value options <s v then max_value options
           else v)
      | _ \<Rightarrow> default_value options)"

text \<open>Modelled from the spec: \<open>grpc_channel_args_find\<close> is defined outside this file.
  The spec describes the service configuration as present under its key or absent: the
  lookup returns the argument with the key, the first in the order of the list, or
  nothing.\<close>

definition grpc_channel_args_find :: "grpc_arg list \<Rightarrow> string \<Rightarrow> grpc_arg option" where
  "grpc_channel_args_find args name = find (\<lambda>a. key a = name) args"

text \<open>The loop over the channel arguments, from the current index to the end.\<close>

fun init_channel_elem_loop :: "grpc_arg list \<Rightarrow> channel_data \<Rightarrow> channel_data" where
  "init_channel_elem_loop [] chand = chand"
| "init_channel_elem_loop (arg # args) chand =
     (let chand =
            (if key arg = GRPC_ARG_MAX_SEND_MESSAGE_LENGTH
             then chand\<lparr> chand_max_send_size :=
                    grpc_channel_arg_get_integer arg
                      \<lparr> default_value = DEFAULT_MAX_SEND_MESSAGE_LENGTH,
                         min_value = 0, max_value = INT_MAX \<rparr> \<rparr>
             else chand);
          chand =
            (if key arg = GRPC_ARG_MAX_RECEIVE_MESSAGE_LENGTH
             then chand\<lparr> chand_max_recv_size :=
                    grpc_channel_arg_get_integer arg
                      \<lparr> default_value = DEFAULT_MAX_RECV_MESSAGE_LENGTH,
                         min_value = 0, max_value = INT_MAX \<rparr> \<rparr>
             else chand)
      in init_channel_elem_loop args chand)"

definition init_channel_elem :: "grpc_channel_element_args \<Rightarrow> fault + channel_data" where
  "init_channel_elem args =
     (if is_last args then Inl GPR_ASSERT_FAILED
      else
        (let chand = \<lparr> chand_max_send_size = DEFAULT_MAX_SEND_MESSAGE_LENGTH,
                       chand_max_recv_size = DEFAULT_MAX_RECV_MESSAGE_LENGTH,
                       method_limit_table = None \<rparr>;
             chand = init_channel_elem_loop (channel_args args) chand
         in (case grpc_channel_args_find (channel_args args) GRPC_ARG_SERVICE_CONFIG of
               None \<Rightarrow> Inr chand
             | Some channel_arg \<Rightarrow>
                 (case arg_value channel_arg of
                    GRPC_ARG_POINTER p \<Rightarrow>
                      Inr (chand\<lparr> method_limit_table :=
                             Some (grpc_method_config_table_convert p
                                     method_config_convert_value) \<rparr>)
                  | _ \<Rightarrow> Inl GPR_ASSERT_FAILED))))"

subsection \<open>The life of one call\<close>

text \<open>
  The pipeline drives a call element through its entry points: it submits operations,
  the transport runs the injected callback (with the memory of that moment and its own
  error), and at the end the call element is destroyed.  A run is a list of these
  events; it collects what the filter did and stops at a fault.
\<close>

datatype 'a call_event =
    START_TRANSPORT_STREAM_OP "'a grpc_transport_stream_op_scheme"
  | RECV_MESSAGE_READY store "grpc_error option"
  | DESTROY_CALL_ELEM

fun call_step :: "call_data \<Rightarrow> 'a call_event \<Rightarrow> fault + (call_data \<times> 'a effect list)" where
  "call_step calld (START_TRANSPORT_STREAM_OP op) = Inr (start_transport_stream_op calld op)"
| "call_step calld (RECV_MESSAGE_READY mem error) = recv_message_ready mem calld error"
| "call_step calld DESTROY_CALL_ELEM = Inr (destroy_call_elem calld)"

fun run_call :: "call_data \<Rightarrow> 'a call_event list \<Rightarrow> fault + (call_data \<times> 'a effect list)" where
  "run_call calld [] = Inr (calld, [])"
| "run_call calld (ev # evs) =
     (case call_step calld ev of
        Inl f \<Rightarrow> Inl f
      | Inr (calld', effs) \<Rightarrow>
          (case run_call calld' evs of
             Inl f \<Rightarrow> Inl f
           | Inr (calld'', effs') \<Rightarrow> Inr (calld'', effs @ effs')))"

text \<open>What a run shows from outside: the closures scheduled, the operations handed on,
  the events that are runs of the injected callback, and the closure an event registers
  for the incoming message.\<close>

fun scheduled_closures :: "'a effect list \<Rightarrow> closure_ptr option list" where
  "scheduled_closures [] = []"
| "scheduled_closures (EXEC_CTX_SCHED cb error # effs) = cb # scheduled_closures effs"
| "scheduled_closures (SEND_CLOSE_WITH_MESSAGE st msg # effs) = scheduled_closures effs"
| "scheduled_closures (CALL_NEXT_OP op # effs) = scheduled_closures effs"

fun forwarded_ops :: "'a effect list \<Rightarrow> 'a grpc_transport_stream_op_scheme list" where
  "forwarded_ops [] = []"
| "forwarded_ops (CALL_NEXT_OP op # effs) = op # forwarded_ops effs"
| "forwarded_ops (EXEC_CTX_SCHED cb error # effs) = forwarded_ops effs"
| "forwarded_ops (SEND_CLOSE_WITH_MESSAGE st msg # effs) = forwarded_ops effs"

fun is_recv_message_ready :: "'a call_event \<Rightarrow> bool" where
  "is_recv_message_ready (RECV_MESSAGE_READY mem error) = True"
| "is_recv_message_ready (START_TRANSPORT_STREAM_OP op) = False"
| "is_recv_message_ready DESTROY_CALL_ELEM = False"

fun registered :: "'a call_event \<Rightarrow> closure_ptr option" where
  "registered (START_TRANSPORT_STREAM_OP op) = op_recv_message_ready op"
| "registered (RECV_MESSAGE_READY mem error) = None"
| "registered DESTROY_CALL_ELEM = None"

subsection \<open>Size caps as the specification reads them\<close>

text \<open>
  A size cap is an optional non-negative number; a negative C \<open>int\<close> is the absent cap.
  \<open>tighter\<close> follows the words of the specification: the minimum, ignoring absent
  values, and absent if both are absent.
\<close>

definition cap_of :: "c_int \<Rightarrow> nat option" where
  "cap_of x = (if 0 \<le>s x then Some (nat (sint x)) else None)"

fun tighter :: "nat option \<Rightarrow> nat option \<Rightarrow> nat option" where
  "tighter None None = None"
| "tighter (Some a) None = Some a"
| "tighter None (Some b) = Some b"
| "tighter (Some a) (Some b) = Some (min a b)"

text \<open>The literal message of a size violation, with the actual size and the limit.\<close>

definition size_violation_text :: "string \<Rightarrow> nat \<Rightarrow> nat \<Rightarrow> string" where
  "size_violation_text direction actual limit =
     direction @ '' message larger than max ('' @ dec_digits actual @ '' vs. '' @
     dec_digits limit @ '')''"

text \<open>The override for a path: the entry of the table of limits, when the channel has a
  table and the table has an entry for the path.\<close>

definition per_method_override :: "channel_data \<Rightarrow> string \<Rightarrow> message_size_limits option" where
  "per_method_override chand p =
     (case method_limit_table chand of
        None \<Rightarrow> None
      | Some table \<Rightarrow> grpc_method_config_table_get table p)"

section \<open>Properties\<close>

lemma merge_cap_tighter:
  "cap_of (if 0 \<le>s ov \<and> (ov <s d \<or> d <s 0) then ov else d) = tighter (cap_of d) (cap_of ov)"
  by (auto simp: cap_of_def word_sle_eq word_sless_alt min_def)

lemma init_call_elem_send:
  "calld_max_send_size (snd (init_call_elem chand calld args)) =
     (case per_method_override chand (path args) of
        None \<Rightarrow> chand_max_send_size chand
      | Some limits \<Rightarrow>
          (if 0 \<le>s limits_max_send_size limits \<and>
              (limits_max_send_size limits <s chand_max_send_size chand \<or>
               chand_max_send_size chand <s 0)
           then limits_max_send_size limits else chand_max_send_size chand))"
  by (auto simp: init_call_elem_def per_method_override_def Let_def split: option.splits)

lemma init_call_elem_recv:
  "calld_max_recv_size (snd (init_call_elem chand calld args)) =
     (case per_method_override chand (path args) of
        None \<Rightarrow> chand_max_recv_size chand
      | Some limits \<Rightarrow>
          (if 0 \<le>s limits_max_recv_size limits \<and>
              (limits_max_recv_size limits <s chand_max_recv_size chand \<or>
               chand_max_recv_size chand <s 0)
           then limits_max_recv_size limits else chand_max_recv_size chand))"
  by (auto simp: init_call_elem_def per_method_override_def Let_def split: option.splits)

lemma merge_cap_select:
  "(if 0 \<le>s ov \<and> (ov <s d \<or> d <s 0) then ov else d) =
     (case cap_of ov of
        None \<Rightarrow> d
      | Some n \<Rightarrow> (case cap_of d of None \<Rightarrow> ov | Some m \<Rightarrow> if n < m then ov else d))"
  by (auto simp: cap_of_def word_sle_eq word_sless_alt)

lemma merge_cap_never_enlarges:
  "0 \<le>s d \<Longrightarrow>
     0 \<le>s (if 0 \<le>s ov \<and> (ov <s d \<or> d <s 0) then ov else d) \<and>
     (if 0 \<le>s ov \<and> (ov <s d \<or> d <s 0) then ov else d) \<le>s d"
  by (auto simp: word_sle_eq word_sless_alt)

lemma init_call_elem_error: "fst (init_call_elem chand calld args) = None"
  by (simp add: init_call_elem_def Let_def)

text \<open>
  C2.  Call-level initialisation resolves each direction on its own as
  \<open>tighter (channel default) (per-method override)\<close>: the effective limit is the channel
  default \<open>D\<close> when the override \<open>O\<close> is absent or not below \<open>D\<close>, and \<open>O\<close> when
  \<open>O\<close> is set and below \<open>D\<close> (an absent \<open>D\<close> is unlimited); a set channel default is
  never exceeded; without a table, or without an entry for the path, the channel
  defaults are taken unchanged.  The constructor cannot fail.
\<close>

theorem init_call_elem_effective_caps:
  "init_call_elem chand calld0 args = (err, calld) \<Longrightarrow>
     err = None \<and>
     (per_method_override chand (path args) = None \<longrightarrow>
        calld_max_send_size calld = chand_max_send_size chand \<and>
        calld_max_recv_size calld = chand_max_recv_size chand) \<and>
     (\<forall>limits. per_method_override chand (path args) = Some limits \<longrightarrow>
        cap_of (calld_max_send_size calld) =
          tighter (cap_of (chand_max_send_size chand)) (cap_of (limits_max_send_size limits)) \<and>
        cap_of (calld_max_recv_size calld) =
          tighter (cap_of (chand_max_recv_size chand)) (cap_of (limits_max_recv_size limits)) \<and>
        calld_max_send_size calld =
          (case cap_of (limits_max_send_size limits) of
             None \<Rightarrow> chand_max_send_size chand
           | Some n \<Rightarrow>
               (case cap_of (chand_max_send_size chand) of
                  None \<Rightarrow> limits_max_send_size limits
                | Some m \<Rightarrow> if n < m then limits_max_send_size limits
                            else chand_max_send_size chand)) \<and>
        calld_max_recv_size calld =
          (case cap_of (limits_max_recv_size limits) of
             None \<Rightarrow> chand_max_recv_size chand
           | Some n \<Rightarrow>
               (case cap_of (chand_max_recv_size chand) of
                  None \<Rightarrow> limits_max_recv_size limits
                | Some m \<Rightarrow> if n < m then limits_max_recv_size limits
                            else chand_max_recv_size chand))) \<and>
     (0 \<le>s chand_max_send_size chand \<longrightarrow>
        0 \<le>s calld_max_send_size calld \<and> calld_max_send_size calld \<le>s chand_max_send_size chand) \<and>
     (0 \<le>s chand_max_recv_size chand \<longrightarrow>
        0 \<le>s calld_max_recv_size calld \<and> calld_max_recv_size calld \<le>s chand_max_recv_size chand)"
proof -
  assume run: "init_call_elem chand calld0 args = (err, calld)"
  have e: "err = None"
    using init_call_elem_error [of chand calld0 args] run by simp
  have s: "calld_max_send_size calld =
     (case per_method_override chand (path args) of
        None \<Rightarrow> chand_max_send_size chand
      | Some limits \<Rightarrow>
          (if 0 \<le>s limits_max_send_size limits \<and>
              (limits_max_send_size limits <s chand_max_send_size chand \<or>
               chand_max_send_size chand <s 0)
           then limits_max_send_size limits else chand_max_send_size chand))"
    using init_call_elem_send [of chand calld0 args] run by simp
  have r: "calld_max_recv_size calld =
     (case per_method_override chand (path args) of
        None \<Rightarrow> chand_max_recv_size chand
      | Some limits \<Rightarrow>
          (if 0 \<le>s limits_max_recv_size limits \<and>
              (limits_max_recv_size limits <s chand_max_recv_size chand \<or>
               chand_max_recv_size chand <s 0)
           then limits_max_recv_size limits else chand_max_recv_size chand))"
    using init_call_elem_recv [of chand calld0 args] run by simp
  have none: "per_method_override chand (path args) = None \<longrightarrow>
        calld_max_send_size calld = chand_max_send_size chand \<and>
        calld_max_recv_size calld = chand_max_recv_size chand"
    using s r by simp
  have some: "\<forall>limits. per_method_override chand (path args) = Some limits \<longrightarrow>
        cap_of (calld_max_send_size calld) =
          tighter (cap_of (chand_max_send_size chand)) (cap_of (limits_max_send_size limits)) \<and>
        cap_of (calld_max_recv_size calld) =
          tighter (cap_of (chand_max_recv_size chand)) (cap_of (limits_max_recv_size limits)) \<and>
        calld_max_send_size calld =
          (case cap_of (limits_max_send_size limits) of
             None \<Rightarrow> chand_max_send_size chand
           | Some n \<Rightarrow>
               (case cap_of (chand_max_send_size chand) of
                  None \<Rightarrow> limits_max_send_size limits
                | Some m \<Rightarrow> if n < m then limits_max_send_size limits
                            else chand_max_send_size chand)) \<and>
        calld_max_recv_size calld =
          (case cap_of (limits_max_recv_size limits) of
             None \<Rightarrow> chand_max_recv_size chand
           | Some n \<Rightarrow>
               (case cap_of (chand_max_recv_size chand) of
                  None \<Rightarrow> limits_max_recv_size limits
                | Some m \<Rightarrow> if n < m then limits_max_recv_size limits
                            else chand_max_recv_size chand))"
  proof (intro allI impI)
    fix limits
    assume ov: "per_method_override chand (path args) = Some limits"
    have s': "calld_max_send_size calld =
          (if 0 \<le>s limits_max_send_size limits \<and>
              (limits_max_send_size limits <s chand_max_send_size chand \<or>
               chand_max_send_size chand <s 0)
           then limits_max_send_size limits else chand_max_send_size chand)"
      using s ov by simp
    have r': "calld_max_recv_size calld =
          (if 0 \<le>s limits_max_recv_size limits \<and>
              (limits_max_recv_size limits <s chand_max_recv_size chand \<or>
               chand_max_recv_size chand <s 0)
           then limits_max_recv_size limits else chand_max_recv_size chand)"
      using r ov by simp
    show "cap_of (calld_max_send_size calld) =
          tighter (cap_of (chand_max_send_size chand)) (cap_of (limits_max_send_size limits)) \<and>
        cap_of (calld_max_recv_size calld) =
          tighter (cap_of (chand_max_recv_size chand)) (cap_of (limits_max_recv_size limits)) \<and>
        calld_max_send_size calld =
          (case cap_of (limits_max_send_size limits) of
             None \<Rightarrow> chand_max_send_size chand
           | Some n \<Rightarrow>
               (case cap_of (chand_max_send_size chand) of
                  None \<Rightarrow> limits_max_send_size limits
                | Some m \<Rightarrow> if n < m then limits_max_send_size limits
                            else chand_max_send_size chand)) \<and>
        calld_max_recv_size calld =
          (case cap_of (limits_max_recv_size limits) of
             None \<Rightarrow> chand_max_recv_size chand
           | Some n \<Rightarrow>
               (case cap_of (chand_max_recv_size chand) of
                  None \<Rightarrow> limits_max_recv_size limits
                | Some m \<Rightarrow> if n < m then limits_max_recv_size limits
                            else chand_max_recv_size chand))"
      unfolding s' r' merge_cap_tighter
      using merge_cap_select [of "limits_max_send_size limits" "chand_max_send_size chand"]
            merge_cap_select [of "limits_max_recv_size limits" "chand_max_recv_size chand"]
      by simp
  qed
  have bs: "0 \<le>s chand_max_send_size chand \<longrightarrow>
        0 \<le>s calld_max_send_size calld \<and> calld_max_send_size calld \<le>s chand_max_send_size chand"
  proof (cases "per_method_override chand (path args)")
    case None
    then show ?thesis using s by simp
  next
    case (Some limits)
    then show ?thesis
      using s merge_cap_never_enlarges [of "chand_max_send_size chand" "limits_max_send_size limits"]
      by simp
  qed
  have br: "0 \<le>s chand_max_recv_size chand \<longrightarrow>
        0 \<le>s calld_max_recv_size calld \<and> calld_max_recv_size calld \<le>s chand_max_recv_size chand"
  proof (cases "per_method_override chand (path args)")
    case None
    then show ?thesis using r by simp
  next
    case (Some limits)
    then show ?thesis
      using r merge_cap_never_enlarges [of "chand_max_recv_size chand" "limits_max_recv_size limits"]
      by simp
  qed
  from e none some bs br show ?thesis by blast
qed

theorem init_call_elem_effective_caps_witness:
  "init_call_elem
     \<lparr> chand_max_send_size = - 1, chand_max_recv_size = 1024,
        method_limit_table = Some [(''/svc/Big'',
           \<lparr> limits_max_send_size = 1024, limits_max_recv_size = 2048 \<rparr>)] \<rparr>
     \<lparr> calld_max_send_size = 0, calld_max_recv_size = 0, calld_recv_message = None,
        next_recv_message_ready = Some (CLOSURE 7) \<rparr>
     \<lparr> path = ''/svc/Big'' \<rparr>
   = (None, \<lparr> calld_max_send_size = 1024, calld_max_recv_size = 1024,
        calld_recv_message = None, next_recv_message_ready = None \<rparr>) \<and>
   per_method_override
     \<lparr> chand_max_send_size = - 1, chand_max_recv_size = 1024,
        method_limit_table = Some [(''/svc/Big'',
           \<lparr> limits_max_send_size = 1024, limits_max_recv_size = 2048 \<rparr>)] \<rparr>
     ''/svc/Big'' = Some \<lparr> limits_max_send_size = 1024, limits_max_recv_size = 2048 \<rparr> \<and>
   cap_of (1024 :: c_int) = tighter (cap_of (- 1)) (cap_of 1024) \<and>
   cap_of (1024 :: c_int) = tighter (cap_of 1024) (cap_of 2048) \<and>
   0 \<le>s (1024 :: c_int) \<and> (1024 :: c_int) \<le>s 1024"
proof -
  have run: "init_call_elem
     \<lparr> chand_max_send_size = - 1, chand_max_recv_size = 1024,
        method_limit_table = Some [(''/svc/Big'',
           \<lparr> limits_max_send_size = 1024, limits_max_recv_size = 2048 \<rparr>)] \<rparr>
     \<lparr> calld_max_send_size = 0, calld_max_recv_size = 0, calld_recv_message = None,
        next_recv_message_ready = Some (CLOSURE 7) \<rparr>
     \<lparr> path = ''/svc/Big'' \<rparr>
   = (None, \<lparr> calld_max_send_size = 1024, calld_max_recv_size = 1024,
        calld_recv_message = None, next_recv_message_ready = None \<rparr>)"
    by (simp add: init_call_elem_def grpc_method_config_table_get_def Let_def
        word_sle_eq word_sless_alt)
  have ov: "per_method_override
     \<lparr> chand_max_send_size = - 1, chand_max_recv_size = 1024,
        method_limit_table = Some [(''/svc/Big'',
           \<lparr> limits_max_send_size = 1024, limits_max_recv_size = 2048 \<rparr>)] \<rparr>
     ''/svc/Big'' = Some \<lparr> limits_max_send_size = 1024, limits_max_recv_size = 2048 \<rparr>"
    by (simp add: per_method_override_def grpc_method_config_table_get_def)
  show ?thesis
    using init_call_elem_effective_caps [OF run] run ov by (simp add: word_sle_eq)
qed

subsection \<open>The size checks\<close>

lemma uint_scast_nonneg:
  "0 \<le>s (mx :: c_int) \<Longrightarrow> uint (scast mx :: size_t) = sint mx"
proof -
  assume nn: "0 \<le>s mx"
  then have a: "0 \<le> sint mx" by (simp add: word_sle_eq)
  have "sint mx < 2 ^ (LENGTH(32) - 1)" by (rule sint_lt)
  also have "\<dots> \<le> (2 :: int) ^ 64" by simp
  finally have b: "sint mx < 2 ^ 64" .
  have "uint (scast mx :: size_t) = take_bit 64 (sint mx)"
    unfolding scast_eq uint_word_of_int_eq by simp
  also have "\<dots> = sint mx"
    using a b by (simp only: take_bit_int_eq_self)
  finally show ?thesis .
qed

lemma size_check_nat:
  "0 \<le>s (mx :: c_int) \<Longrightarrow>
     ((scast mx :: size_t) < ucast (len :: uint32_t)) \<longleftrightarrow> nat (sint mx) < unat len"
proof -
  assume nn: "0 \<le>s mx"
  have u: "uint (ucast len :: size_t) = uint len"
    by (simp add: uint_up_ucast is_up)
  have a: "0 \<le> sint mx" using nn by (simp add: word_sle_eq)
  have "((scast mx :: size_t) < ucast len) \<longleftrightarrow> sint mx < uint len"
    unfolding word_less_def uint_scast_nonneg [OF nn] u ..
  also have "\<dots> \<longleftrightarrow> nat (sint mx) < unat len"
    using a by (simp add: nat_less_iff)
  finally show ?thesis .
qed


lemma over_cap_iff:
  "(0 \<le>s (mx :: c_int) \<and> (scast mx :: size_t) < ucast (len :: uint32_t)) \<longleftrightarrow>
     (\<exists>limit. cap_of mx = Some limit \<and> limit < unat len)"
  using size_check_nat [of mx len] by (auto simp: cap_of_def)

lemma printf_d_nonneg: "0 \<le>s mx \<Longrightarrow> printf_d mx = dec_digits (nat (sint mx))"
  by (simp add: printf_d_def word_sle_eq word_sless_alt)

lemma sent_text:
  "cap_of mx = Some limit \<Longrightarrow>
     ''Sent message larger than max ('' @ printf_u len @ '' vs. '' @ printf_d mx @ '')'' =
     size_violation_text ''Sent'' (unat len) limit"
  by (auto simp: cap_of_def size_violation_text_def printf_u_def printf_d_nonneg split: if_splits)

lemma received_text:
  "cap_of mx = Some limit \<Longrightarrow>
     ''Received message larger than max ('' @ printf_u len @ '' vs. '' @ printf_d mx @ '')'' =
     size_violation_text ''Received'' (unat len) limit"
  by (auto simp: cap_of_def size_violation_text_def printf_u_def printf_d_nonneg split: if_splits)

lemma start_op_effects_no_message:
  "op_send_message op = None \<Longrightarrow>
     snd (start_transport_stream_op calld op) =
       [CALL_NEXT_OP (case op_recv_message_ready op of
                        None \<Rightarrow> op
                      | Some cb \<Rightarrow> op\<lparr> op_recv_message_ready := Some CALLD_RECV_MESSAGE_READY \<rparr>)]"
  by (simp add: start_transport_stream_op_def Let_def split: option.splits)

lemma start_op_effects_within:
  "op_send_message op = Some m \<Longrightarrow>
   \<not> (\<exists>limit. cap_of (calld_max_send_size calld) = Some limit \<and> limit < unat (stream_length m)) \<Longrightarrow>
     snd (start_transport_stream_op calld op) =
       [CALL_NEXT_OP (case op_recv_message_ready op of
                        None \<Rightarrow> op
                      | Some cb \<Rightarrow> op\<lparr> op_recv_message_ready := Some CALLD_RECV_MESSAGE_READY \<rparr>)]"
  unfolding over_cap_iff [symmetric]
  by (simp add: start_transport_stream_op_def Let_def split: option.splits)

lemma start_op_effects_over:
  "op_send_message op = Some m \<Longrightarrow>
   cap_of (calld_max_send_size calld) = Some limit \<Longrightarrow> limit < unat (stream_length m) \<Longrightarrow>
     snd (start_transport_stream_op calld op) =
       [SEND_CLOSE_WITH_MESSAGE GRPC_STATUS_INVALID_ARGUMENT
          (size_violation_text ''Sent'' (unat (stream_length m)) limit),
        CALL_NEXT_OP (case op_recv_message_ready op of
                        None \<Rightarrow> op
                      | Some cb \<Rightarrow> op\<lparr> op_recv_message_ready := Some CALLD_RECV_MESSAGE_READY \<rparr>)]"
proof -
  assume m: "op_send_message op = Some m"
    and c: "cap_of (calld_max_send_size calld) = Some limit"
    and l: "limit < unat (stream_length m)"
  have chk: "0 \<le>s calld_max_send_size calld \<and>
      (scast (calld_max_send_size calld) :: size_t) < ucast (stream_length m)"
    unfolding over_cap_iff using c l by simp
  show ?thesis
    using m chk sent_text [OF c, of "stream_length m"]
    by (simp add: start_transport_stream_op_def Let_def split: option.splits)
qed


lemma recv_ready_invalid:
  "calld_recv_message calld = None \<Longrightarrow> recv_message_ready mem calld error = Inl INVALID_POINTER"
  by (simp add: recv_message_ready_def)

lemma recv_ready_no_message:
  "calld_recv_message calld = Some p \<Longrightarrow> mem p = None \<Longrightarrow>
     recv_message_ready mem calld error =
       Inr (calld, [EXEC_CTX_SCHED (next_recv_message_ready calld) error])"
  by (simp add: recv_message_ready_def)

lemma recv_ready_within:
  "calld_recv_message calld = Some p \<Longrightarrow> mem p = Some m \<Longrightarrow>
   \<not> (\<exists>limit. cap_of (calld_max_recv_size calld) = Some limit \<and> limit < unat (stream_length m)) \<Longrightarrow>
     recv_message_ready mem calld error =
       Inr (calld, [EXEC_CTX_SCHED (next_recv_message_ready calld) error])"
  unfolding over_cap_iff [symmetric]
  by (auto simp: recv_message_ready_def)

lemma recv_ready_over:
  "calld_recv_message calld = Some p \<Longrightarrow> mem p = Some m \<Longrightarrow>
   cap_of (calld_max_recv_size calld) = Some limit \<Longrightarrow> limit < unat (stream_length m) \<Longrightarrow>
     recv_message_ready mem calld error =
       Inr (calld,
            [EXEC_CTX_SCHED (next_recv_message_ready calld)
               (case error of
                  None \<Rightarrow>
                    Some (Error (size_violation_text ''Received'' (unat (stream_length m)) limit)
                            [(GRPC_ERROR_INT_GRPC_STATUS, GRPC_STATUS_INVALID_ARGUMENT)] [])
                | Some e \<Rightarrow>
                    Some (grpc_error_add_child e
                      (Error (size_violation_text ''Received'' (unat (stream_length m)) limit)
                         [(GRPC_ERROR_INT_GRPC_STATUS, GRPC_STATUS_INVALID_ARGUMENT)] [])))])"
proof -
  assume p: "calld_recv_message calld = Some p" and m: "mem p = Some m"
    and c: "cap_of (calld_max_recv_size calld) = Some limit"
    and l: "limit < unat (stream_length m)"
  have chk: "0 \<le>s calld_max_recv_size calld \<and>
      (scast (calld_max_recv_size calld) :: size_t) < ucast (stream_length m)"
    unfolding over_cap_iff using c l by simp
  show ?thesis
    using p m chk received_text [OF c, of "stream_length m"]
    by (simp add: recv_message_ready_def Let_def GRPC_ERROR_CREATE_def grpc_error_set_int_def
        split: option.splits)
qed

lemma add_child_neq: "grpc_error_add_child e c \<noteq> e"
proof
  assume "grpc_error_add_child e c = e"
  then have "err_children (grpc_error_add_child e c) = err_children e" by simp
  then show False by (simp add: grpc_error_add_child_def)
qed

text \<open>
  C1.  A send is rejected exactly when the call's send limit is set and the length of the
  outgoing message exceeds it: then, and only then, the call is closed with the
  invalid-argument status and the text
  \<open>Sent message larger than max (<actual> vs. <limit>)\<close>.  Symmetrically, the error
  delivered by the receive callback differs from the transport's exactly when the
  receive limit is set and the length of the received message exceeds it, and it then
  carries \<open>Received message larger than max (<actual> vs. <limit>)\<close> with the
  invalid-argument status.
\<close>

theorem size_check_rejects_iff_over_cap:
  "(op_send_message op = None \<longrightarrow>
      (\<forall>st msg. SEND_CLOSE_WITH_MESSAGE st msg \<notin> set (snd (start_transport_stream_op calld op)))) \<and>
   (op_send_message op = Some m \<longrightarrow>
      ((\<exists>st msg. SEND_CLOSE_WITH_MESSAGE st msg \<in> set (snd (start_transport_stream_op calld op))) \<longleftrightarrow>
       (\<exists>limit. cap_of (calld_max_send_size calld) = Some limit \<and> limit < unat (stream_length m))) \<and>
      (\<forall>limit. cap_of (calld_max_send_size calld) = Some limit \<and> limit < unat (stream_length m) \<longrightarrow>
         (\<forall>st msg. SEND_CLOSE_WITH_MESSAGE st msg \<in> set (snd (start_transport_stream_op calld op)) \<longleftrightarrow>
            st = GRPC_STATUS_INVALID_ARGUMENT \<and>
            msg = size_violation_text ''Sent'' (unat (stream_length m)) limit))) \<and>
   (calld_recv_message calld = Some p \<and> mem p = None \<longrightarrow>
      recv_message_ready mem calld error =
        Inr (calld, [EXEC_CTX_SCHED (next_recv_message_ready calld) error])) \<and>
   (calld_recv_message calld = Some p \<and> mem p = Some rm \<longrightarrow>
      (\<exists>delivered.
         recv_message_ready mem calld error =
           Inr (calld, [EXEC_CTX_SCHED (next_recv_message_ready calld) delivered]) \<and>
         (delivered \<noteq> error \<longleftrightarrow>
            (\<exists>limit. cap_of (calld_max_recv_size calld) = Some limit \<and>
                     limit < unat (stream_length rm))) \<and>
         (\<forall>limit. cap_of (calld_max_recv_size calld) = Some limit \<and>
                  limit < unat (stream_length rm) \<longrightarrow>
            delivered =
              (case error of
                 None \<Rightarrow>
                   Some (Error (size_violation_text ''Received'' (unat (stream_length rm)) limit)
                           [(GRPC_ERROR_INT_GRPC_STATUS, GRPC_STATUS_INVALID_ARGUMENT)] [])
               | Some e \<Rightarrow>
                   Some (grpc_error_add_child e
                     (Error (size_violation_text ''Received'' (unat (stream_length rm)) limit)
                        [(GRPC_ERROR_INT_GRPC_STATUS, GRPC_STATUS_INVALID_ARGUMENT)] []))))))"
proof (intro conjI impI)
  assume "op_send_message op = None"
  then show "\<forall>st msg. SEND_CLOSE_WITH_MESSAGE st msg \<notin> set (snd (start_transport_stream_op calld op))"
    by (simp add: start_op_effects_no_message)
next
  assume m: "op_send_message op = Some m"
  show "(\<exists>st msg. SEND_CLOSE_WITH_MESSAGE st msg \<in> set (snd (start_transport_stream_op calld op))) \<longleftrightarrow>
       (\<exists>limit. cap_of (calld_max_send_size calld) = Some limit \<and> limit < unat (stream_length m))"
  proof (cases "\<exists>limit. cap_of (calld_max_send_size calld) = Some limit \<and> limit < unat (stream_length m)")
    case True
    then obtain limit where "cap_of (calld_max_send_size calld) = Some limit"
      and "limit < unat (stream_length m)" by blast
    then show ?thesis using start_op_effects_over [OF m] by auto
  next
    case False
    then show ?thesis using start_op_effects_within [OF m False] by simp
  qed
next
  assume m: "op_send_message op = Some m"
  show "\<forall>limit. cap_of (calld_max_send_size calld) = Some limit \<and> limit < unat (stream_length m) \<longrightarrow>
         (\<forall>st msg. SEND_CLOSE_WITH_MESSAGE st msg \<in> set (snd (start_transport_stream_op calld op)) \<longleftrightarrow>
            st = GRPC_STATUS_INVALID_ARGUMENT \<and>
            msg = size_violation_text ''Sent'' (unat (stream_length m)) limit)"
    using start_op_effects_over [OF m] by auto
next
  assume "calld_recv_message calld = Some p \<and> mem p = None"
  then show "recv_message_ready mem calld error =
        Inr (calld, [EXEC_CTX_SCHED (next_recv_message_ready calld) error])"
    by (simp add: recv_ready_no_message)
next
  assume a: "calld_recv_message calld = Some p \<and> mem p = Some rm"
  then have p: "calld_recv_message calld = Some p" and rm: "mem p = Some rm" by simp_all
  show "\<exists>delivered.
         recv_message_ready mem calld error =
           Inr (calld, [EXEC_CTX_SCHED (next_recv_message_ready calld) delivered]) \<and>
         (delivered \<noteq> error \<longleftrightarrow>
            (\<exists>limit. cap_of (calld_max_recv_size calld) = Some limit \<and>
                     limit < unat (stream_length rm))) \<and>
         (\<forall>limit. cap_of (calld_max_recv_size calld) = Some limit \<and>
                  limit < unat (stream_length rm) \<longrightarrow>
            delivered =
              (case error of
                 None \<Rightarrow>
                   Some (Error (size_violation_text ''Received'' (unat (stream_length rm)) limit)
                           [(GRPC_ERROR_INT_GRPC_STATUS, GRPC_STATUS_INVALID_ARGUMENT)] [])
               | Some e \<Rightarrow>
                   Some (grpc_error_add_child e
                     (Error (size_violation_text ''Received'' (unat (stream_length rm)) limit)
                        [(GRPC_ERROR_INT_GRPC_STATUS, GRPC_STATUS_INVALID_ARGUMENT)] []))))"
  proof (cases "\<exists>limit. cap_of (calld_max_recv_size calld) = Some limit \<and> limit < unat (stream_length rm)")
    case True
    then obtain limit where c: "cap_of (calld_max_recv_size calld) = Some limit"
      and l: "limit < unat (stream_length rm)" by blast
    show ?thesis
      using recv_ready_over [of calld p mem rm limit error] p rm c l add_child_neq
      by (cases error) auto
  next
    case False
    show ?thesis
      using recv_ready_within [of calld p mem rm error] p rm False by auto
  qed
qed

theorem size_check_rejects_iff_over_cap_witness:
  "SEND_CLOSE_WITH_MESSAGE GRPC_STATUS_INVALID_ARGUMENT
       ''Sent message larger than max (2048 vs. 1024)''
     \<in> set (snd (start_transport_stream_op
            \<lparr> calld_max_send_size = 1024, calld_max_recv_size = 4194304,
               calld_recv_message = Some 0, next_recv_message_ready = Some (CLOSURE 1) \<rparr>
            \<lparr> op_send_message = Some \<lparr> stream_length = 2048 \<rparr>,
               op_recv_message = None, op_recv_message_ready = None \<rparr>)) \<and>
   (recv_message_ready (empty_store(0 := Some \<lparr> stream_length = 5242880 \<rparr>))
      \<lparr> calld_max_send_size = 1024, calld_max_recv_size = 4194304,
         calld_recv_message = Some 0, next_recv_message_ready = Some (CLOSURE 1) \<rparr>
      None :: fault + call_data \<times> unit effect list) =
     Inr (\<lparr> calld_max_send_size = 1024, calld_max_recv_size = 4194304,
            calld_recv_message = Some 0, next_recv_message_ready = Some (CLOSURE 1) \<rparr>,
          [EXEC_CTX_SCHED (Some (CLOSURE 1))
             (Some (Error ''Received message larger than max (5242880 vs. 4194304)''
                      [(GRPC_ERROR_INT_GRPC_STATUS, GRPC_STATUS_INVALID_ARGUMENT)] []))])"
proof -
  have ts: "size_violation_text ''Sent'' 2048 1024 =
      ''Sent message larger than max (2048 vs. 1024)''"
    by (simp add: size_violation_text_def dec_digits.simps)
  have tr: "size_violation_text ''Received'' 5242880 4194304 =
      ''Received message larger than max (5242880 vs. 4194304)''"
    by (simp add: size_violation_text_def dec_digits.simps)
  note inst = size_check_rejects_iff_over_cap
    [of "\<lparr> op_send_message = Some \<lparr> stream_length = 2048 \<rparr>,
            op_recv_message = None, op_recv_message_ready = None \<rparr>"
        "\<lparr> calld_max_send_size = 1024, calld_max_recv_size = 4194304,
            calld_recv_message = Some 0, next_recv_message_ready = Some (CLOSURE 1) \<rparr>"
        "\<lparr> stream_length = 2048 \<rparr>" 0
        "empty_store(0 := Some \<lparr> stream_length = 5242880 \<rparr>)"
        None "\<lparr> stream_length = 5242880 \<rparr>"]
  have m: "op_send_message \<lparr> op_send_message = Some \<lparr> stream_length = 2048 \<rparr>,
      op_recv_message = None, op_recv_message_ready = None \<rparr> = Some \<lparr> stream_length = 2048 \<rparr>"
    by simp
  have c: "cap_of (calld_max_send_size \<lparr> calld_max_send_size = 1024,
        calld_max_recv_size = 4194304, calld_recv_message = Some 0,
        next_recv_message_ready = Some (CLOSURE 1) \<rparr>) = Some 1024 \<and>
      1024 < unat (stream_length \<lparr> stream_length = 2048 \<rparr>)"
    by (simp add: cap_of_def word_sle_eq)
  have send: "SEND_CLOSE_WITH_MESSAGE GRPC_STATUS_INVALID_ARGUMENT
       (size_violation_text ''Sent'' 2048 1024)
     \<in> set (snd (start_transport_stream_op
            \<lparr> calld_max_send_size = 1024, calld_max_recv_size = 4194304,
               calld_recv_message = Some 0, next_recv_message_ready = Some (CLOSURE 1) \<rparr>
            \<lparr> op_send_message = Some \<lparr> stream_length = 2048 \<rparr>,
               op_recv_message = None, op_recv_message_ready = None \<rparr>))"
    using inst [THEN conjunct2, THEN conjunct1, THEN mp, OF m, THEN conjunct2, THEN spec,
        THEN mp, OF c]
    by simp
  have p: "calld_recv_message \<lparr> calld_max_send_size = 1024,
        calld_max_recv_size = 4194304, calld_recv_message = Some 0,
        next_recv_message_ready = Some (CLOSURE 1) \<rparr> = Some 0 \<and>
      (empty_store(0 := Some \<lparr> stream_length = 5242880 \<rparr>)) (0 :: addr) =
        Some \<lparr> stream_length = 5242880 \<rparr>"
    by simp
  have cr: "cap_of (calld_max_recv_size \<lparr> calld_max_send_size = 1024,
        calld_max_recv_size = 4194304, calld_recv_message = Some 0,
        next_recv_message_ready = Some (CLOSURE 1) \<rparr>) = Some 4194304 \<and>
      4194304 < unat (stream_length \<lparr> stream_length = 5242880 \<rparr>)"
    by (simp add: cap_of_def word_sle_eq)
  obtain delivered :: "grpc_error option" where
    run: "(recv_message_ready (empty_store(0 := Some \<lparr> stream_length = 5242880 \<rparr>))
      \<lparr> calld_max_send_size = 1024, calld_max_recv_size = 4194304,
         calld_recv_message = Some 0, next_recv_message_ready = Some (CLOSURE 1) \<rparr>
      None :: fault + call_data \<times> unit effect list) =
     Inr (\<lparr> calld_max_send_size = 1024, calld_max_recv_size = 4194304,
            calld_recv_message = Some 0, next_recv_message_ready = Some (CLOSURE 1) \<rparr>,
          [EXEC_CTX_SCHED (next_recv_message_ready \<lparr> calld_max_send_size = 1024,
             calld_max_recv_size = 4194304, calld_recv_message = Some 0,
             next_recv_message_ready = Some (CLOSURE 1) \<rparr>) delivered])"
    and d: "\<forall>limit. cap_of (calld_max_recv_size \<lparr> calld_max_send_size = 1024,
            calld_max_recv_size = 4194304, calld_recv_message = Some 0,
            next_recv_message_ready = Some (CLOSURE 1) \<rparr>) = Some limit \<and>
          limit < unat (stream_length \<lparr> stream_length = 5242880 \<rparr>) \<longrightarrow>
        delivered =
          (case None :: grpc_error option of
             None \<Rightarrow>
               Some (Error (size_violation_text ''Received''
                       (unat (stream_length \<lparr> stream_length = 5242880 \<rparr>)) limit)
                       [(GRPC_ERROR_INT_GRPC_STATUS, GRPC_STATUS_INVALID_ARGUMENT)] [])
           | Some e \<Rightarrow>
               Some (grpc_error_add_child e
                 (Error (size_violation_text ''Received''
                    (unat (stream_length \<lparr> stream_length = 5242880 \<rparr>)) limit)
                    [(GRPC_ERROR_INT_GRPC_STATUS, GRPC_STATUS_INVALID_ARGUMENT)] [])))"
    using inst [THEN conjunct2, THEN conjunct2, THEN conjunct2, THEN mp, OF p]
    by blast
  have dv: "delivered = Some (Error (size_violation_text ''Received'' 5242880 4194304)
      [(GRPC_ERROR_INT_GRPC_STATUS, GRPC_STATUS_INVALID_ARGUMENT)] [])"
    using d [THEN spec, THEN mp, OF cr] by simp
  show ?thesis
    using send run unfolding dv ts tr by simp
qed

subsection \<open>The receive callback\<close>

lemma add_child_fields:
  "err_description (grpc_error_add_child e c) = err_description e \<and>
   err_ints (grpc_error_add_child e c) = err_ints e \<and>
   err_children (grpc_error_add_child e c) = err_children e @ [c]"
  by (simp add: grpc_error_add_child_def)

text \<open>
  C3.  When the injected callback runs and the received message exceeds the set receive
  limit, an invalid-argument error with the text
  \<open>Received message larger than max (<actual> vs. <limit>)\<close> is made.  Without an
  error from the transport the saved callback is scheduled with that error alone; with an
  error from the transport it is scheduled with one error that keeps the description,
  attributes and children of the transport's error and has the new error as a further
  child.  Without a violation the saved callback is scheduled with what the transport
  reported, untouched.
\<close>

theorem recv_message_ready_error_policy:
  "calld_recv_message calld = Some p \<Longrightarrow>
     (\<forall>m limit.
        mem p = Some m \<and> cap_of (calld_max_recv_size calld) = Some limit \<and>
        limit < unat (stream_length m) \<longrightarrow>
        (error = None \<longrightarrow>
           recv_message_ready mem calld error =
             Inr (calld,
                  [EXEC_CTX_SCHED (next_recv_message_ready calld)
                     (Some (Error (size_violation_text ''Received'' (unat (stream_length m)) limit)
                              [(GRPC_ERROR_INT_GRPC_STATUS, GRPC_STATUS_INVALID_ARGUMENT)] []))])) \<and>
        (\<forall>e. error = Some e \<longrightarrow>
           recv_message_ready mem calld error =
             Inr (calld,
                  [EXEC_CTX_SCHED (next_recv_message_ready calld)
                     (Some (grpc_error_add_child e
                        (Error (size_violation_text ''Received'' (unat (stream_length m)) limit)
                           [(GRPC_ERROR_INT_GRPC_STATUS, GRPC_STATUS_INVALID_ARGUMENT)] [])))]) \<and>
           err_description (grpc_error_add_child e
              (Error (size_violation_text ''Received'' (unat (stream_length m)) limit)
                 [(GRPC_ERROR_INT_GRPC_STATUS, GRPC_STATUS_INVALID_ARGUMENT)] [])) =
             err_description e \<and>
           err_ints (grpc_error_add_child e
              (Error (size_violation_text ''Received'' (unat (stream_length m)) limit)
                 [(GRPC_ERROR_INT_GRPC_STATUS, GRPC_STATUS_INVALID_ARGUMENT)] [])) =
             err_ints e \<and>
           err_children (grpc_error_add_child e
              (Error (size_violation_text ''Received'' (unat (stream_length m)) limit)
                 [(GRPC_ERROR_INT_GRPC_STATUS, GRPC_STATUS_INVALID_ARGUMENT)] [])) =
             err_children e @
             [Error (size_violation_text ''Received'' (unat (stream_length m)) limit)
                [(GRPC_ERROR_INT_GRPC_STATUS, GRPC_STATUS_INVALID_ARGUMENT)] []])) \<and>
     ((mem p = None \<or>
       (\<exists>m. mem p = Some m \<and>
            \<not> (\<exists>limit. cap_of (calld_max_recv_size calld) = Some limit \<and>
                         limit < unat (stream_length m)))) \<longrightarrow>
        recv_message_ready mem calld error =
          Inr (calld, [EXEC_CTX_SCHED (next_recv_message_ready calld) error]))"
proof (intro conjI allI impI)
  fix m limit
  assume p: "calld_recv_message calld = Some p"
    and a: "mem p = Some m \<and> cap_of (calld_max_recv_size calld) = Some limit \<and>
        limit < unat (stream_length m)"
    and e: "error = None"
  show "recv_message_ready mem calld error =
             Inr (calld,
                  [EXEC_CTX_SCHED (next_recv_message_ready calld)
                     (Some (Error (size_violation_text ''Received'' (unat (stream_length m)) limit)
                              [(GRPC_ERROR_INT_GRPC_STATUS, GRPC_STATUS_INVALID_ARGUMENT)] []))])"
    using recv_ready_over [of calld p mem m limit error] p a e by simp
next
  fix m limit e
  assume p: "calld_recv_message calld = Some p"
    and a: "mem p = Some m \<and> cap_of (calld_max_recv_size calld) = Some limit \<and>
        limit < unat (stream_length m)"
    and e: "error = Some e"
  show "recv_message_ready mem calld error =
             Inr (calld,
                  [EXEC_CTX_SCHED (next_recv_message_ready calld)
                     (Some (grpc_error_add_child e
                        (Error (size_violation_text ''Received'' (unat (stream_length m)) limit)
                           [(GRPC_ERROR_INT_GRPC_STATUS, GRPC_STATUS_INVALID_ARGUMENT)] [])))])"
    using recv_ready_over [of calld p mem m limit error] p a e by simp
next
  fix m limit e
  show "err_description (grpc_error_add_child e
              (Error (size_violation_text ''Received'' (unat (stream_length m)) limit)
                 [(GRPC_ERROR_INT_GRPC_STATUS, GRPC_STATUS_INVALID_ARGUMENT)] [])) =
             err_description e"
    by (simp add: add_child_fields)
next
  fix m limit e
  show "err_ints (grpc_error_add_child e
              (Error (size_violation_text ''Received'' (unat (stream_length m)) limit)
                 [(GRPC_ERROR_INT_GRPC_STATUS, GRPC_STATUS_INVALID_ARGUMENT)] [])) =
             err_ints e"
    by (simp add: add_child_fields)
next
  fix m limit e
  show "err_children (grpc_error_add_child e
              (Error (size_violation_text ''Received'' (unat (stream_length m)) limit)
                 [(GRPC_ERROR_INT_GRPC_STATUS, GRPC_STATUS_INVALID_ARGUMENT)] [])) =
             err_children e @
             [Error (size_violation_text ''Received'' (unat (stream_length m)) limit)
                [(GRPC_ERROR_INT_GRPC_STATUS, GRPC_STATUS_INVALID_ARGUMENT)] []]"
    by (simp add: add_child_fields)
next
  assume p: "calld_recv_message calld = Some p"
    and a: "mem p = None \<or>
       (\<exists>m. mem p = Some m \<and>
            \<not> (\<exists>limit. cap_of (calld_max_recv_size calld) = Some limit \<and>
                         limit < unat (stream_length m)))"
  from a show "recv_message_ready mem calld error =
          Inr (calld, [EXEC_CTX_SCHED (next_recv_message_ready calld) error])"
  proof
    assume "mem p = None"
    then show ?thesis using recv_ready_no_message [of calld p mem error] p by simp
  next
    assume "\<exists>m. mem p = Some m \<and>
            \<not> (\<exists>limit. cap_of (calld_max_recv_size calld) = Some limit \<and>
                         limit < unat (stream_length m))"
    then obtain m where m: "mem p = Some m"
      and n: "\<not> (\<exists>limit. cap_of (calld_max_recv_size calld) = Some limit \<and>
                         limit < unat (stream_length m))" by blast
    show ?thesis using recv_ready_within [of calld p mem m error] p m n by simp
  qed
qed

theorem recv_message_ready_error_policy_witness:
  "(recv_message_ready (empty_store(0 := Some \<lparr> stream_length = 5242880 \<rparr>))
      \<lparr> calld_max_send_size = - 1, calld_max_recv_size = 4194304,
         calld_recv_message = Some 0, next_recv_message_ready = Some (CLOSURE 1) \<rparr>
      (Some (Error ''Stream removed'' [] [])) :: fault + call_data \<times> unit effect list) =
     Inr (\<lparr> calld_max_send_size = - 1, calld_max_recv_size = 4194304,
            calld_recv_message = Some 0, next_recv_message_ready = Some (CLOSURE 1) \<rparr>,
          [EXEC_CTX_SCHED (Some (CLOSURE 1))
             (Some (Error ''Stream removed'' []
                [Error ''Received message larger than max (5242880 vs. 4194304)''
                   [(GRPC_ERROR_INT_GRPC_STATUS, GRPC_STATUS_INVALID_ARGUMENT)] []]))])"
proof -
  have tr: "size_violation_text ''Received'' 5242880 4194304 =
      ''Received message larger than max (5242880 vs. 4194304)''"
    by (simp add: size_violation_text_def dec_digits.simps)
  have p: "calld_recv_message \<lparr> calld_max_send_size = - 1, calld_max_recv_size = 4194304,
         calld_recv_message = Some 0, next_recv_message_ready = Some (CLOSURE 1) \<rparr> = Some 0"
    by simp
  have a: "(empty_store(0 := Some \<lparr> stream_length = 5242880 \<rparr>)) 0 =
        Some \<lparr> stream_length = 5242880 \<rparr> \<and>
      cap_of (calld_max_recv_size \<lparr> calld_max_send_size = - 1, calld_max_recv_size = 4194304,
         calld_recv_message = Some 0, next_recv_message_ready = Some (CLOSURE 1) \<rparr>) =
        Some 4194304 \<and>
      4194304 < unat (stream_length \<lparr> stream_length = 5242880 \<rparr>)"
    by (simp add: cap_of_def word_sle_eq)
  have e: "Some (Error ''Stream removed'' [] []) = Some (Error ''Stream removed'' [] [])"
    by simp
  have "(recv_message_ready (empty_store(0 := Some \<lparr> stream_length = 5242880 \<rparr>))
      \<lparr> calld_max_send_size = - 1, calld_max_recv_size = 4194304,
         calld_recv_message = Some 0, next_recv_message_ready = Some (CLOSURE 1) \<rparr>
      (Some (Error ''Stream removed'' [] [])) :: fault + call_data \<times> unit effect list) =
     Inr (\<lparr> calld_max_send_size = - 1, calld_max_recv_size = 4194304,
            calld_recv_message = Some 0, next_recv_message_ready = Some (CLOSURE 1) \<rparr>,
          [EXEC_CTX_SCHED (Some (CLOSURE 1))
             (Some (grpc_error_add_child (Error ''Stream removed'' [] [])
                (Error (size_violation_text ''Received'' 5242880 4194304)
                   [(GRPC_ERROR_INT_GRPC_STATUS, GRPC_STATUS_INVALID_ARGUMENT)] [])))])"
    using recv_message_ready_error_policy
      [of _ 0 "empty_store(0 := Some \<lparr> stream_length = 5242880 \<rparr>)"
          "Some (Error ''Stream removed'' [] [])",
       OF p, THEN conjunct1, THEN spec, THEN spec, THEN mp, OF a, THEN conjunct2,
       THEN spec, THEN mp, OF e, THEN conjunct1]
    by simp
  then show ?thesis
    unfolding tr by (simp add: grpc_error_add_child_def)
qed

subsection \<open>Forwarding and the saved callback\<close>

lemma start_op_fst:
  "fst (start_transport_stream_op calld op) =
     (case op_recv_message_ready op of
        None \<Rightarrow> calld
      | Some cb \<Rightarrow> calld\<lparr> next_recv_message_ready := Some cb,
                           calld_recv_message := op_recv_message op \<rparr>)"
  by (simp add: start_transport_stream_op_def Let_def split: option.splits)

lemma start_op_snd:
  "\<exists>closed.
     snd (start_transport_stream_op calld op) =
       closed @
       [CALL_NEXT_OP (case op_recv_message_ready op of
                        None \<Rightarrow> op
                      | Some cb \<Rightarrow> op\<lparr> op_recv_message_ready := Some CALLD_RECV_MESSAGE_READY \<rparr>)] \<and>
     (closed = [] \<or> (\<exists>msg. closed = [SEND_CLOSE_WITH_MESSAGE GRPC_STATUS_INVALID_ARGUMENT msg]))"
  by (simp add: start_transport_stream_op_def Let_def split: option.splits)

lemma start_op_forwarded:
  "forwarded_ops (snd (start_transport_stream_op calld op)) =
     [case op_recv_message_ready op of
        None \<Rightarrow> op
      | Some cb \<Rightarrow> op\<lparr> op_recv_message_ready := Some CALLD_RECV_MESSAGE_READY \<rparr>]"
  using start_op_snd [of calld op] by auto

lemma start_op_scheduled:
  "scheduled_closures (snd (start_transport_stream_op calld op)) = []"
  using start_op_snd [of calld op] by auto

lemma recv_ready_shape:
  "calld_recv_message calld = Some p \<Longrightarrow>
     \<exists>delivered. recv_message_ready mem calld error =
       Inr (calld, [EXEC_CTX_SCHED (next_recv_message_ready calld) delivered])"
  by (simp add: recv_message_ready_def Let_def split: option.splits)

lemma recv_ready_Inr:
  "recv_message_ready mem calld error = Inr (calld', effs) \<Longrightarrow>
     calld' = calld \<and> scheduled_closures effs = [next_recv_message_ready calld]"
  by (auto simp: recv_message_ready_def Let_def split: option.splits)

lemma scheduled_closures_append:
  "scheduled_closures (xs @ ys) = scheduled_closures xs @ scheduled_closures ys"
  by (induction xs rule: scheduled_closures.induct) simp_all


lemma call_step_keeps_out:
  "next_recv_message_ready calld \<noteq> Some old \<Longrightarrow> registered ev \<noteq> Some old \<Longrightarrow>
   call_step calld ev = Inr (calld', effs) \<Longrightarrow>
     Some old \<notin> set (scheduled_closures effs) \<and> next_recv_message_ready calld' \<noteq> Some old"
proof (cases ev)
  case (START_TRANSPORT_STREAM_OP op)
  assume n: "next_recv_message_ready calld \<noteq> Some old"
    and r: "registered ev \<noteq> Some old"
    and s: "call_step calld ev = Inr (calld', effs)"
  from s START_TRANSPORT_STREAM_OP
  have c: "calld' = fst (start_transport_stream_op calld op)"
    and e: "effs = snd (start_transport_stream_op calld op)" by auto
  from r START_TRANSPORT_STREAM_OP have "op_recv_message_ready op \<noteq> Some old" by simp
  then have "next_recv_message_ready calld' \<noteq> Some old"
    unfolding c start_op_fst using n by (cases "op_recv_message_ready op") auto
  then show ?thesis unfolding e by (simp add: start_op_scheduled)
next
  case (RECV_MESSAGE_READY mem error)
  assume n: "next_recv_message_ready calld \<noteq> Some old"
    and s: "call_step calld ev = Inr (calld', effs)"
  from s RECV_MESSAGE_READY
  have "recv_message_ready mem calld error = Inr (calld', effs)" by simp
  from recv_ready_Inr [OF this] n show ?thesis by auto
next
  case DESTROY_CALL_ELEM
  assume n: "next_recv_message_ready calld \<noteq> Some old"
    and s: "call_step calld ev = Inr (calld', effs)"
  from s DESTROY_CALL_ELEM n show ?thesis by (auto simp: destroy_call_elem_def)
qed

lemma run_call_keeps_out:
  "next_recv_message_ready calld \<noteq> Some old \<Longrightarrow>
   \<forall>ev \<in> set evs. registered ev \<noteq> Some old \<Longrightarrow>
   run_call calld evs = Inr (calld', effs) \<Longrightarrow>
     Some old \<notin> set (scheduled_closures effs) \<and> next_recv_message_ready calld' \<noteq> Some old"
proof (induction evs arbitrary: calld effs)
  case Nil
  then show ?case by auto
next
  case (Cons ev evs)
  from Cons.prems(3) obtain c1 e1 where s1: "call_step calld ev = Inr (c1, e1)"
    by (auto split: sum.splits)
  with Cons.prems(3) obtain e2 where r2: "run_call c1 evs = Inr (calld', e2)"
    and eff: "effs = e1 @ e2"
    by (auto split: sum.splits)
  from Cons.prems(2) have rev: "registered ev \<noteq> Some old"
    and rest: "\<forall>ev \<in> set evs. registered ev \<noteq> Some old" by simp_all
  from call_step_keeps_out [OF Cons.prems(1) rev s1]
  have a: "Some old \<notin> set (scheduled_closures e1)"
    and b: "next_recv_message_ready c1 \<noteq> Some old" by simp_all
  from Cons.IH [OF b rest r2]
  have "Some old \<notin> set (scheduled_closures e2)"
    and "next_recv_message_ready calld' \<noteq> Some old" by simp_all
  with a show ?case unfolding eff by (simp add: scheduled_closures_append)
qed

text \<open>
  C9.  An operation that registers a callback for the incoming message sets the saved
  callback to it, whatever was saved before.  A callback saved earlier and not yet run is
  lost: unless it is registered again, no later run of the filter schedules it.
\<close>

theorem registration_overwrites_saved_callback:
  "op_recv_message_ready op = Some cb \<Longrightarrow>
     next_recv_message_ready (fst (start_transport_stream_op calld op)) = Some cb \<and>
     (\<forall>old evs calld' effs.
        old \<noteq> cb \<and> (\<forall>ev \<in> set evs. registered ev \<noteq> Some old) \<and>
        run_call (fst (start_transport_stream_op calld op)) evs = Inr (calld', effs) \<longrightarrow>
        Some old \<notin> set (scheduled_closures effs))"
proof
  assume r: "op_recv_message_ready op = Some cb"
  then show n: "next_recv_message_ready (fst (start_transport_stream_op calld op)) = Some cb"
    by (simp add: start_op_fst)
  show "\<forall>old evs calld' effs.
        old \<noteq> cb \<and> (\<forall>ev \<in> set evs. registered ev \<noteq> Some old) \<and>
        run_call (fst (start_transport_stream_op calld op)) evs = Inr (calld', effs) \<longrightarrow>
        Some old \<notin> set (scheduled_closures effs)"
  proof (intro allI impI)
    fix old evs calld' effs
    assume a: "old \<noteq> cb \<and> (\<forall>ev \<in> set evs. registered ev \<noteq> Some old) \<and>
        run_call (fst (start_transport_stream_op calld op)) evs = Inr (calld', effs)"
    then have "next_recv_message_ready (fst (start_transport_stream_op calld op)) \<noteq> Some old"
      using n by auto
    from run_call_keeps_out [OF this] a
    show "Some old \<notin> set (scheduled_closures effs)" by blast
  qed
qed

theorem registration_overwrites_saved_callback_witness:
  "next_recv_message_ready
     (fst (start_transport_stream_op
        \<lparr> calld_max_send_size = - 1, calld_max_recv_size = 4194304,
           calld_recv_message = Some 0, next_recv_message_ready = Some (CLOSURE 1) \<rparr>
        \<lparr> op_send_message = None, op_recv_message = Some 1,
           op_recv_message_ready = Some (CLOSURE 2) \<rparr>)) = Some (CLOSURE 2) \<and>
   run_call
     (fst (start_transport_stream_op
        \<lparr> calld_max_send_size = - 1, calld_max_recv_size = 4194304,
           calld_recv_message = Some 0, next_recv_message_ready = Some (CLOSURE 1) \<rparr>
        \<lparr> op_send_message = None, op_recv_message = Some 1,
           op_recv_message_ready = Some (CLOSURE 2) \<rparr>))
     [RECV_MESSAGE_READY empty_store None, RECV_MESSAGE_READY empty_store None] =
     Inr (\<lparr> calld_max_send_size = - 1, calld_max_recv_size = 4194304,
            calld_recv_message = Some 1, next_recv_message_ready = Some (CLOSURE 2) \<rparr>,
          [EXEC_CTX_SCHED (Some (CLOSURE 2)) None, EXEC_CTX_SCHED (Some (CLOSURE 2)) None
             :: unit effect]) \<and>
   Some (CLOSURE 1) \<notin> set (scheduled_closures
     [EXEC_CTX_SCHED (Some (CLOSURE 2)) None, EXEC_CTX_SCHED (Some (CLOSURE 2)) None
        :: unit effect])"
proof -
  have r: "op_recv_message_ready \<lparr> op_send_message = None, op_recv_message = Some 1,
      op_recv_message_ready = Some (CLOSURE 2) \<rparr> = Some (CLOSURE 2)"
    by simp
  have run: "run_call
     (fst (start_transport_stream_op
        \<lparr> calld_max_send_size = - 1, calld_max_recv_size = 4194304,
           calld_recv_message = Some 0, next_recv_message_ready = Some (CLOSURE 1) \<rparr>
        \<lparr> op_send_message = None, op_recv_message = Some 1,
           op_recv_message_ready = Some (CLOSURE 2) \<rparr>))
     [RECV_MESSAGE_READY empty_store None, RECV_MESSAGE_READY empty_store None] =
     Inr (\<lparr> calld_max_send_size = - 1, calld_max_recv_size = 4194304,
            calld_recv_message = Some 1, next_recv_message_ready = Some (CLOSURE 2) \<rparr>,
          [EXEC_CTX_SCHED (Some (CLOSURE 2)) None, EXEC_CTX_SCHED (Some (CLOSURE 2)) None
             :: unit effect])"
    by (simp add: start_transport_stream_op_def recv_message_ready_def empty_store_def Let_def)
  have h: "CLOSURE 1 \<noteq> CLOSURE 2 \<and>
      (\<forall>ev \<in> set [RECV_MESSAGE_READY empty_store None, RECV_MESSAGE_READY empty_store None
          :: unit call_event]. registered ev \<noteq> Some (CLOSURE 1)) \<and>
      run_call
     (fst (start_transport_stream_op
        \<lparr> calld_max_send_size = - 1, calld_max_recv_size = 4194304,
           calld_recv_message = Some 0, next_recv_message_ready = Some (CLOSURE 1) \<rparr>
        \<lparr> op_send_message = None, op_recv_message = Some 1,
           op_recv_message_ready = Some (CLOSURE 2) \<rparr>))
     [RECV_MESSAGE_READY empty_store None, RECV_MESSAGE_READY empty_store None] =
     Inr (\<lparr> calld_max_send_size = - 1, calld_max_recv_size = 4194304,
            calld_recv_message = Some 1, next_recv_message_ready = Some (CLOSURE 2) \<rparr>,
          [EXEC_CTX_SCHED (Some (CLOSURE 2)) None, EXEC_CTX_SCHED (Some (CLOSURE 2)) None
             :: unit effect])"
    using run by simp
  note inst = registration_overwrites_saved_callback [OF r,
      of "\<lparr> calld_max_send_size = - 1, calld_max_recv_size = 4194304,
           calld_recv_message = Some 0, next_recv_message_ready = Some (CLOSURE 1) \<rparr>"]
  from inst [THEN conjunct1] inst [THEN conjunct2, THEN spec, THEN spec, THEN spec, THEN spec,
      THEN mp, OF h] run
  show ?thesis by simp
qed

lemma run_call_append:
  "run_call calld (xs @ ys) =
     (case run_call calld xs of
        Inl f \<Rightarrow> Inl f
      | Inr (c1, e1) \<Rightarrow>
          (case run_call c1 ys of
             Inl f \<Rightarrow> Inl f
           | Inr (c2, e2) \<Rightarrow> Inr (c2, e1 @ e2)))"
  by (induction xs arbitrary: calld) (auto split: sum.splits)

lemma call_step_non_registering:
  fixes ev :: "'a call_event"
  shows "calld_recv_message calld = Some p \<Longrightarrow> registered ev = None \<Longrightarrow>
     \<exists>effs. call_step calld ev = Inr (calld, effs) \<and>
       scheduled_closures effs =
         (if is_recv_message_ready ev then [next_recv_message_ready calld] else [])"
proof (cases ev)
  case (START_TRANSPORT_STREAM_OP op)
  assume "registered ev = None"
  with START_TRANSPORT_STREAM_OP have n: "op_recv_message_ready op = None" by simp
  have "fst (start_transport_stream_op calld op) = calld"
    using n by (simp add: start_op_fst)
  then have "call_step calld ev = Inr (calld, snd (start_transport_stream_op calld op))"
    using START_TRANSPORT_STREAM_OP
    by (cases "start_transport_stream_op calld op") simp
  moreover have "scheduled_closures (snd (start_transport_stream_op calld op)) = []"
    by (rule start_op_scheduled)
  ultimately show ?thesis
    using START_TRANSPORT_STREAM_OP by auto
next
  case (RECV_MESSAGE_READY mem error)
  assume p: "calld_recv_message calld = Some p"
  from recv_ready_shape [OF p, of mem error] obtain delivered where
    "recv_message_ready mem calld error =
       Inr (calld, [EXEC_CTX_SCHED (next_recv_message_ready calld) delivered :: 'a effect])"
    by blast
  then show ?thesis using RECV_MESSAGE_READY by simp
next
  case DESTROY_CALL_ELEM
  then show ?thesis by (simp add: destroy_call_elem_def)
qed

lemma run_call_non_registering:
  fixes evs :: "'a call_event list"
  shows "calld_recv_message calld = Some p \<Longrightarrow> \<forall>ev \<in> set evs. registered ev = None \<Longrightarrow>
     \<exists>effs. run_call calld evs = Inr (calld, effs) \<and>
       scheduled_closures effs =
         replicate (length (filter is_recv_message_ready evs)) (next_recv_message_ready calld)"
proof (induction evs)
  case Nil
  then show ?case by simp
next
  case (Cons ev evs)
  from Cons.prems have r: "registered ev = None"
    and rest: "\<forall>ev \<in> set evs. registered ev = None" by simp_all
  from call_step_non_registering [OF Cons.prems(1) r] obtain e1 where
    s1: "call_step calld ev = Inr (calld, e1)"
    and c1: "scheduled_closures e1 =
      (if is_recv_message_ready ev then [next_recv_message_ready calld] else [])" by blast
  from Cons.IH [OF Cons.prems(1) rest] obtain e2 where
    s2: "run_call calld evs = Inr (calld, e2)"
    and c2: "scheduled_closures e2 =
      replicate (length (filter is_recv_message_ready evs)) (next_recv_message_ready calld)"
    by blast
  have "run_call calld (ev # evs) = Inr (calld, e1 @ e2)"
    using s1 s2 by simp
  moreover have "scheduled_closures (e1 @ e2) =
      replicate (length (filter is_recv_message_ready (ev # evs))) (next_recv_message_ready calld)"
    using c1 c2 by (simp add: scheduled_closures_append)
  ultimately show ?case by blast
qed


text \<open>
  C4.  Take any point in the life of a call and an operation that registers a receive,
  with a slot for the incoming message.  Whatever follows without a further registration
  (operations that register no receive, runs of the injected callback with any message
  and any report of the transport, success or an error such as a cancellation, and the
  destructor), every run of the injected callback schedules the saved callback once and
  nothing else schedules it: it is scheduled exactly once when the callback runs once,
  and not at all when it never runs.  The slot holds one saved callback at most.  It is
  not cleared when the callback is scheduled: it holds the saved callback through all
  these events, until the next registration.  The destructor does nothing.
\<close>

theorem saved_callback_scheduled_once:
  fixes op :: "'a grpc_transport_stream_op_scheme"
  shows "op_recv_message_ready op = Some cb \<Longrightarrow> op_recv_message op = Some p \<Longrightarrow>
     run_call calld0 pre = Inr (calld, effs0) \<Longrightarrow>
     \<forall>ev \<in> set evs. registered ev = None \<Longrightarrow>
     \<exists>effs.
       run_call calld0 (pre @ START_TRANSPORT_STREAM_OP op # evs) =
         Inr (calld\<lparr> next_recv_message_ready := Some cb, calld_recv_message := Some p \<rparr>,
              effs0 @ effs) \<and>
       scheduled_closures effs =
         replicate (length (filter is_recv_message_ready evs)) (Some cb) \<and>
       (length (filter is_recv_message_ready evs) = 1 \<longrightarrow> scheduled_closures effs = [Some cb]) \<and>
       (filter is_recv_message_ready evs = [] \<longrightarrow> scheduled_closures effs = [])"
proof -
  assume r: "op_recv_message_ready op = Some cb" and m: "op_recv_message op = Some p"
    and pre: "run_call calld0 pre = Inr (calld, effs0)"
    and evs: "\<forall>ev \<in> set evs. registered ev = None"
  let ?c1 = "calld\<lparr> next_recv_message_ready := Some cb, calld_recv_message := Some p \<rparr>"
  obtain c1 e1 where s: "start_transport_stream_op calld op = (c1, e1)"
    by (cases "start_transport_stream_op calld op")
  from s have "c1 = fst (start_transport_stream_op calld op)"
    and e1: "e1 = snd (start_transport_stream_op calld op)" by simp_all
  then have c1: "c1 = ?c1"
    using r m by (simp add: start_op_fst)
  have s1: "scheduled_closures e1 = []"
    unfolding e1 by (rule start_op_scheduled)
  have p1: "calld_recv_message ?c1 = Some p" by simp
  from run_call_non_registering [OF p1 evs] obtain e2 where
    r2: "run_call ?c1 evs = Inr (?c1, e2)"
    and s2: "scheduled_closures e2 =
      replicate (length (filter is_recv_message_ready evs)) (Some cb)"
    by auto
  have "run_call calld (START_TRANSPORT_STREAM_OP op # evs) = Inr (?c1, e1 @ e2)"
    using s c1 r2 by simp
  with pre have run: "run_call calld0 (pre @ START_TRANSPORT_STREAM_OP op # evs) =
      Inr (?c1, effs0 @ (e1 @ e2))"
    by (simp add: run_call_append)
  have sc: "scheduled_closures (e1 @ e2) =
      replicate (length (filter is_recv_message_ready evs)) (Some cb)"
    using s1 s2 by (simp add: scheduled_closures_append)
  have one: "length (filter is_recv_message_ready evs) = 1 \<longrightarrow>
      scheduled_closures (e1 @ e2) = [Some cb]"
    using sc by simp
  have none: "filter is_recv_message_ready evs = [] \<longrightarrow> scheduled_closures (e1 @ e2) = []"
    using sc by simp
  from run sc one none show ?thesis by blast
qed

theorem saved_callback_scheduled_once_witness:
  "run_call
     \<lparr> calld_max_send_size = - 1, calld_max_recv_size = 1024,
        calld_recv_message = None, next_recv_message_ready = None \<rparr>
     ([START_TRANSPORT_STREAM_OP
         \<lparr> op_send_message = Some \<lparr> stream_length = 10 \<rparr>, op_recv_message = None,
            op_recv_message_ready = None \<rparr>] @
      START_TRANSPORT_STREAM_OP
        \<lparr> op_send_message = None, op_recv_message = Some 0,
           op_recv_message_ready = Some (CLOSURE 1) \<rparr> #
      [START_TRANSPORT_STREAM_OP
         \<lparr> op_send_message = Some \<lparr> stream_length = 20 \<rparr>, op_recv_message = None,
            op_recv_message_ready = None \<rparr>,
       RECV_MESSAGE_READY (empty_store(0 := Some \<lparr> stream_length = 1500 \<rparr>))
         (Some (Error ''Cancelled'' [(GRPC_ERROR_INT_GRPC_STATUS, GRPC_STATUS_CANCELLED)] [])),
       DESTROY_CALL_ELEM]) =
     Inr (\<lparr> calld_max_send_size = - 1, calld_max_recv_size = 1024,
            calld_recv_message = Some 0, next_recv_message_ready = Some (CLOSURE 1) \<rparr>,
          [CALL_NEXT_OP \<lparr> op_send_message = Some \<lparr> stream_length = 10 \<rparr>,
                          op_recv_message = None, op_recv_message_ready = None \<rparr>,
           CALL_NEXT_OP \<lparr> op_send_message = None, op_recv_message = Some 0,
                          op_recv_message_ready = Some CALLD_RECV_MESSAGE_READY \<rparr>,
           CALL_NEXT_OP \<lparr> op_send_message = Some \<lparr> stream_length = 20 \<rparr>,
                          op_recv_message = None, op_recv_message_ready = None \<rparr>,
           EXEC_CTX_SCHED (Some (CLOSURE 1))
             (Some (Error ''Cancelled'' [(GRPC_ERROR_INT_GRPC_STATUS, GRPC_STATUS_CANCELLED)]
                [Error ''Received message larger than max (1500 vs. 1024)''
                   [(GRPC_ERROR_INT_GRPC_STATUS, GRPC_STATUS_INVALID_ARGUMENT)] []]))]) \<and>
   scheduled_closures
     [CALL_NEXT_OP \<lparr> op_send_message = None, op_recv_message = Some 0,
                     op_recv_message_ready = Some CALLD_RECV_MESSAGE_READY \<rparr>,
      CALL_NEXT_OP \<lparr> op_send_message = Some \<lparr> stream_length = 20 \<rparr>,
                     op_recv_message = None, op_recv_message_ready = None \<rparr>,
      EXEC_CTX_SCHED (Some (CLOSURE 1))
        (Some (Error ''Cancelled'' [(GRPC_ERROR_INT_GRPC_STATUS, GRPC_STATUS_CANCELLED)]
           [Error ''Received message larger than max (1500 vs. 1024)''
              [(GRPC_ERROR_INT_GRPC_STATUS, GRPC_STATUS_INVALID_ARGUMENT)] []]))] =
     [Some (CLOSURE 1)]"
proof -
  have r: "op_recv_message_ready \<lparr> op_send_message = None, op_recv_message = Some 0,
      op_recv_message_ready = Some (CLOSURE 1) \<rparr> = Some (CLOSURE 1)"
    and m: "op_recv_message \<lparr> op_send_message = None, op_recv_message = Some 0,
      op_recv_message_ready = Some (CLOSURE 1) \<rparr> = Some 0"
    by simp_all
  have pre: "run_call
     \<lparr> calld_max_send_size = - 1, calld_max_recv_size = 1024,
        calld_recv_message = None, next_recv_message_ready = None \<rparr>
     [START_TRANSPORT_STREAM_OP
         \<lparr> op_send_message = Some \<lparr> stream_length = 10 \<rparr>, op_recv_message = None,
            op_recv_message_ready = None \<rparr>] =
     Inr (\<lparr> calld_max_send_size = - 1, calld_max_recv_size = 1024,
            calld_recv_message = None, next_recv_message_ready = None \<rparr>,
          [CALL_NEXT_OP \<lparr> op_send_message = Some \<lparr> stream_length = 10 \<rparr>,
                          op_recv_message = None, op_recv_message_ready = None \<rparr>])"
    by (simp add: start_transport_stream_op_def Let_def word_sle_eq)
  have evs: "\<forall>ev \<in> set
      [START_TRANSPORT_STREAM_OP
         \<lparr> op_send_message = Some \<lparr> stream_length = 20 \<rparr>, op_recv_message = None,
            op_recv_message_ready = None \<rparr>,
       RECV_MESSAGE_READY (empty_store(0 := Some \<lparr> stream_length = 1500 \<rparr>))
         (Some (Error ''Cancelled'' [(GRPC_ERROR_INT_GRPC_STATUS, GRPC_STATUS_CANCELLED)] [])),
       DESTROY_CALL_ELEM]. registered ev = None"
    by simp
  have t: "''Received message larger than max ('' @ printf_u 1500 @ '' vs. '' @
      printf_d 1024 @ '')'' = ''Received message larger than max (1500 vs. 1024)''"
    by (simp add: printf_u_def printf_d_def dec_digits.simps word_sless_alt)
  have chk: "0 \<le>s (1024 :: c_int) \<and> (scast (1024 :: c_int) :: size_t) < ucast (1500 :: uint32_t)"
    by (simp add: word_sle_eq)
  have nochk: "\<not> 0 \<le>s (- 1 :: c_int)"
    by (simp add: word_sle_eq)
  have run: "run_call
     \<lparr> calld_max_send_size = - 1, calld_max_recv_size = 1024,
        calld_recv_message = None, next_recv_message_ready = None \<rparr>
     ([START_TRANSPORT_STREAM_OP
         \<lparr> op_send_message = Some \<lparr> stream_length = 10 \<rparr>, op_recv_message = None,
            op_recv_message_ready = None \<rparr>] @
      START_TRANSPORT_STREAM_OP
        \<lparr> op_send_message = None, op_recv_message = Some 0,
           op_recv_message_ready = Some (CLOSURE 1) \<rparr> #
      [START_TRANSPORT_STREAM_OP
         \<lparr> op_send_message = Some \<lparr> stream_length = 20 \<rparr>, op_recv_message = None,
            op_recv_message_ready = None \<rparr>,
       RECV_MESSAGE_READY (empty_store(0 := Some \<lparr> stream_length = 1500 \<rparr>))
         (Some (Error ''Cancelled'' [(GRPC_ERROR_INT_GRPC_STATUS, GRPC_STATUS_CANCELLED)] [])),
       DESTROY_CALL_ELEM]) =
     Inr (\<lparr> calld_max_send_size = - 1, calld_max_recv_size = 1024,
            calld_recv_message = Some 0, next_recv_message_ready = Some (CLOSURE 1) \<rparr>,
          [CALL_NEXT_OP \<lparr> op_send_message = Some \<lparr> stream_length = 10 \<rparr>,
                          op_recv_message = None, op_recv_message_ready = None \<rparr>,
           CALL_NEXT_OP \<lparr> op_send_message = None, op_recv_message = Some 0,
                          op_recv_message_ready = Some CALLD_RECV_MESSAGE_READY \<rparr>,
           CALL_NEXT_OP \<lparr> op_send_message = Some \<lparr> stream_length = 20 \<rparr>,
                          op_recv_message = None, op_recv_message_ready = None \<rparr>,
           EXEC_CTX_SCHED (Some (CLOSURE 1))
             (Some (Error ''Cancelled'' [(GRPC_ERROR_INT_GRPC_STATUS, GRPC_STATUS_CANCELLED)]
                [Error ''Received message larger than max (1500 vs. 1024)''
                   [(GRPC_ERROR_INT_GRPC_STATUS, GRPC_STATUS_INVALID_ARGUMENT)] []]))])"
    using t chk nochk
    by (simp add: start_transport_stream_op_def recv_message_ready_def destroy_call_elem_def
        Let_def GRPC_ERROR_CREATE_def grpc_error_set_int_def grpc_error_add_child_def)
  from saved_callback_scheduled_once [OF r m pre evs]
  obtain effs where
    a: "run_call
     \<lparr> calld_max_send_size = - 1, calld_max_recv_size = 1024,
        calld_recv_message = None, next_recv_message_ready = None \<rparr>
     ([START_TRANSPORT_STREAM_OP
         \<lparr> op_send_message = Some \<lparr> stream_length = 10 \<rparr>, op_recv_message = None,
            op_recv_message_ready = None \<rparr>] @
      START_TRANSPORT_STREAM_OP
        \<lparr> op_send_message = None, op_recv_message = Some 0,
           op_recv_message_ready = Some (CLOSURE 1) \<rparr> #
      [START_TRANSPORT_STREAM_OP
         \<lparr> op_send_message = Some \<lparr> stream_length = 20 \<rparr>, op_recv_message = None,
            op_recv_message_ready = None \<rparr>,
       RECV_MESSAGE_READY (empty_store(0 := Some \<lparr> stream_length = 1500 \<rparr>))
         (Some (Error ''Cancelled'' [(GRPC_ERROR_INT_GRPC_STATUS, GRPC_STATUS_CANCELLED)] [])),
       DESTROY_CALL_ELEM]) =
     Inr (\<lparr> calld_max_send_size = - 1, calld_max_recv_size = 1024,
            calld_recv_message = None, next_recv_message_ready = None \<rparr>
            \<lparr> next_recv_message_ready := Some (CLOSURE 1), calld_recv_message := Some 0 \<rparr>,
          [CALL_NEXT_OP \<lparr> op_send_message = Some \<lparr> stream_length = 10 \<rparr>,
                          op_recv_message = None, op_recv_message_ready = None \<rparr>] @ effs)"
    and b: "scheduled_closures effs =
      replicate (length (filter is_recv_message_ready
        [START_TRANSPORT_STREAM_OP
           \<lparr> op_send_message = Some \<lparr> stream_length = 20 \<rparr>, op_recv_message = None,
              op_recv_message_ready = None \<rparr>,
         RECV_MESSAGE_READY (empty_store(0 := Some \<lparr> stream_length = 1500 \<rparr>))
           (Some (Error ''Cancelled'' [(GRPC_ERROR_INT_GRPC_STATUS, GRPC_STATUS_CANCELLED)] [])),
         DESTROY_CALL_ELEM])) (Some (CLOSURE 1))"
    by blast
  from a run have "effs =
     [CALL_NEXT_OP \<lparr> op_send_message = None, op_recv_message = Some 0,
                     op_recv_message_ready = Some CALLD_RECV_MESSAGE_READY \<rparr>,
      CALL_NEXT_OP \<lparr> op_send_message = Some \<lparr> stream_length = 20 \<rparr>,
                     op_recv_message = None, op_recv_message_ready = None \<rparr>,
      EXEC_CTX_SCHED (Some (CLOSURE 1))
        (Some (Error ''Cancelled'' [(GRPC_ERROR_INT_GRPC_STATUS, GRPC_STATUS_CANCELLED)]
           [Error ''Received message larger than max (1500 vs. 1024)''
              [(GRPC_ERROR_INT_GRPC_STATUS, GRPC_STATUS_INVALID_ARGUMENT)] []]))]"
    by simp
  with b run show ?thesis by simp
qed

theorem saved_callback_not_cleared_counterexample:
  "(recv_message_ready (empty_store(0 := Some \<lparr> stream_length = 5 \<rparr>))
      \<lparr> calld_max_send_size = - 1, calld_max_recv_size = 4194304,
         calld_recv_message = Some 0, next_recv_message_ready = Some (CLOSURE 1) \<rparr>
      None :: fault + call_data \<times> unit effect list) =
     Inr (\<lparr> calld_max_send_size = - 1, calld_max_recv_size = 4194304,
            calld_recv_message = Some 0, next_recv_message_ready = Some (CLOSURE 1) \<rparr>,
          [EXEC_CTX_SCHED (Some (CLOSURE 1)) None])"
  by (simp add: recv_message_ready_def word_sle_eq)

text \<open>
  C5.  An operation whose outgoing message exceeds the set send limit closes the call with
  the invalid-argument status and is then still handed to the next filter.  Every
  operation, rejected or not, is handed on exactly once, with the callback for the
  incoming message replaced by the filter's own when one is registered, and as it is
  otherwise.
\<close>

theorem rejected_send_is_still_forwarded:
  "forwarded_ops (snd (start_transport_stream_op calld op)) =
     [case op_recv_message_ready op of
        None \<Rightarrow> op
      | Some cb \<Rightarrow> op\<lparr> op_recv_message_ready := Some CALLD_RECV_MESSAGE_READY \<rparr>] \<and>
   (\<forall>m limit.
      op_send_message op = Some m \<and> cap_of (calld_max_send_size calld) = Some limit \<and>
      limit < unat (stream_length m) \<longrightarrow>
      snd (start_transport_stream_op calld op) =
        [SEND_CLOSE_WITH_MESSAGE GRPC_STATUS_INVALID_ARGUMENT
           (size_violation_text ''Sent'' (unat (stream_length m)) limit),
         CALL_NEXT_OP (case op_recv_message_ready op of
                         None \<Rightarrow> op
                       | Some cb \<Rightarrow> op\<lparr> op_recv_message_ready := Some CALLD_RECV_MESSAGE_READY \<rparr>)]) \<and>
   ((op_send_message op = None \<or>
     (\<exists>m. op_send_message op = Some m \<and>
          \<not> (\<exists>limit. cap_of (calld_max_send_size calld) = Some limit \<and>
                       limit < unat (stream_length m)))) \<longrightarrow>
      snd (start_transport_stream_op calld op) =
        [CALL_NEXT_OP (case op_recv_message_ready op of
                         None \<Rightarrow> op
                       | Some cb \<Rightarrow> op\<lparr> op_recv_message_ready := Some CALLD_RECV_MESSAGE_READY \<rparr>)])"
proof (intro conjI allI impI)
  show "forwarded_ops (snd (start_transport_stream_op calld op)) =
     [case op_recv_message_ready op of
        None \<Rightarrow> op
      | Some cb \<Rightarrow> op\<lparr> op_recv_message_ready := Some CALLD_RECV_MESSAGE_READY \<rparr>]"
    by (rule start_op_forwarded)
next
  fix m limit
  assume "op_send_message op = Some m \<and> cap_of (calld_max_send_size calld) = Some limit \<and>
      limit < unat (stream_length m)"
  then show "snd (start_transport_stream_op calld op) =
        [SEND_CLOSE_WITH_MESSAGE GRPC_STATUS_INVALID_ARGUMENT
           (size_violation_text ''Sent'' (unat (stream_length m)) limit),
         CALL_NEXT_OP (case op_recv_message_ready op of
                         None \<Rightarrow> op
                       | Some cb \<Rightarrow> op\<lparr> op_recv_message_ready := Some CALLD_RECV_MESSAGE_READY \<rparr>)]"
    using start_op_effects_over [of op m calld limit] by simp
next
  assume a: "op_send_message op = None \<or>
     (\<exists>m. op_send_message op = Some m \<and>
          \<not> (\<exists>limit. cap_of (calld_max_send_size calld) = Some limit \<and>
                       limit < unat (stream_length m)))"
  from a show "snd (start_transport_stream_op calld op) =
        [CALL_NEXT_OP (case op_recv_message_ready op of
                         None \<Rightarrow> op
                       | Some cb \<Rightarrow> op\<lparr> op_recv_message_ready := Some CALLD_RECV_MESSAGE_READY \<rparr>)]"
  proof
    assume "op_send_message op = None"
    then show ?thesis by (rule start_op_effects_no_message)
  next
    assume "\<exists>m. op_send_message op = Some m \<and>
          \<not> (\<exists>limit. cap_of (calld_max_send_size calld) = Some limit \<and>
                       limit < unat (stream_length m))"
    then obtain m where m: "op_send_message op = Some m"
      and n: "\<not> (\<exists>limit. cap_of (calld_max_send_size calld) = Some limit \<and>
                       limit < unat (stream_length m))" by blast
    show ?thesis using start_op_effects_within [OF m n] .
  qed
qed

theorem rejected_send_is_still_forwarded_witness:
  "snd (start_transport_stream_op
          \<lparr> calld_max_send_size = 1024, calld_max_recv_size = 4194304,
             calld_recv_message = None, next_recv_message_ready = None \<rparr>
          \<lparr> op_send_message = Some \<lparr> stream_length = 2048 \<rparr>, op_recv_message = Some 0,
             op_recv_message_ready = Some (CLOSURE 1) \<rparr>) =
     [SEND_CLOSE_WITH_MESSAGE GRPC_STATUS_INVALID_ARGUMENT
        ''Sent message larger than max (2048 vs. 1024)'',
      CALL_NEXT_OP \<lparr> op_send_message = Some \<lparr> stream_length = 2048 \<rparr>, op_recv_message = Some 0,
                      op_recv_message_ready = Some CALLD_RECV_MESSAGE_READY \<rparr>]"
proof -
  have ts: "size_violation_text ''Sent'' 2048 1024 =
      ''Sent message larger than max (2048 vs. 1024)''"
    by (simp add: size_violation_text_def dec_digits.simps)
  have a: "op_send_message \<lparr> op_send_message = Some \<lparr> stream_length = 2048 \<rparr>,
        op_recv_message = Some 0, op_recv_message_ready = Some (CLOSURE 1) \<rparr> =
        Some \<lparr> stream_length = 2048 \<rparr> \<and>
      cap_of (calld_max_send_size \<lparr> calld_max_send_size = 1024,
        calld_max_recv_size = 4194304, calld_recv_message = None,
        next_recv_message_ready = None \<rparr>) = Some 1024 \<and>
      1024 < unat (stream_length \<lparr> stream_length = 2048 \<rparr>)"
    by (simp add: cap_of_def word_sle_eq)
  from rejected_send_is_still_forwarded [THEN conjunct2, THEN conjunct1, THEN spec, THEN spec,
      THEN mp, OF a]
  show ?thesis by (simp add: ts)
qed

theorem rejected_send_not_forwarded_counterexample:
  "start_transport_stream_op
     \<lparr> calld_max_send_size = 1024, calld_max_recv_size = 4194304,
        calld_recv_message = None, next_recv_message_ready = None \<rparr>
     \<lparr> op_send_message = Some \<lparr> stream_length = 2048 \<rparr>, op_recv_message = None,
        op_recv_message_ready = None \<rparr> =
     (\<lparr> calld_max_send_size = 1024, calld_max_recv_size = 4194304,
         calld_recv_message = None, next_recv_message_ready = None \<rparr>,
      [SEND_CLOSE_WITH_MESSAGE GRPC_STATUS_INVALID_ARGUMENT
         ''Sent message larger than max (2048 vs. 1024)'',
       CALL_NEXT_OP \<lparr> op_send_message = Some \<lparr> stream_length = 2048 \<rparr>, op_recv_message = None,
                       op_recv_message_ready = None \<rparr>])"
proof -
  have t: "''Sent message larger than max ('' @ printf_u 2048 @ '' vs. '' @
      printf_d 1024 @ '')'' = ''Sent message larger than max (2048 vs. 1024)''"
    by (simp add: printf_u_def printf_d_def dec_digits.simps word_sless_alt)
  have chk: "0 \<le>s (1024 :: c_int) \<and> (scast (1024 :: c_int) :: size_t) < ucast (2048 :: uint32_t)"
    by (simp add: word_sle_eq)
  show ?thesis
    using t chk by (simp add: start_transport_stream_op_def Let_def)
qed

text \<open>
  C8.  The operation handed to the next filter differs from the one received in the
  callback for the incoming message at most: every other field, the extension of the
  record included, is the same.  The callback is replaced by the filter's own, and the
  caller's is saved, when one is registered; an operation that registers none is handed
  on as it is.
\<close>

theorem forwarded_op_frame:
  "CALL_NEXT_OP op' \<in> set (snd (start_transport_stream_op calld op)) \<Longrightarrow>
     op' = op\<lparr> op_recv_message_ready := op_recv_message_ready op' \<rparr> \<and>
     op_send_message op' = op_send_message op \<and>
     op_recv_message op' = op_recv_message op \<and>
     grpc_transport_stream_op.more op' = grpc_transport_stream_op.more op \<and>
     (op_recv_message_ready op = None \<longrightarrow> op' = op) \<and>
     (\<forall>cb. op_recv_message_ready op = Some cb \<longrightarrow>
        op_recv_message_ready op' = Some CALLD_RECV_MESSAGE_READY \<and>
        next_recv_message_ready (fst (start_transport_stream_op calld op)) = Some cb)"
proof -
  assume a: "CALL_NEXT_OP op' \<in> set (snd (start_transport_stream_op calld op))"
  have eq: "op' = (case op_recv_message_ready op of
                    None \<Rightarrow> op
                  | Some cb \<Rightarrow> op\<lparr> op_recv_message_ready := Some CALLD_RECV_MESSAGE_READY \<rparr>)"
    using a start_op_snd [of calld op] by auto
  show ?thesis
  proof (cases "op_recv_message_ready op")
    case None
    then show ?thesis using eq by simp
  next
    case (Some cb)
    then show ?thesis using eq by (simp add: start_op_fst)
  qed
qed

theorem forwarded_op_frame_witness:
  "CALL_NEXT_OP \<lparr> op_send_message = Some \<lparr> stream_length = 10 \<rparr>, op_recv_message = Some 0,
                   op_recv_message_ready = Some CALLD_RECV_MESSAGE_READY \<rparr>
     \<in> set (snd (start_transport_stream_op
          \<lparr> calld_max_send_size = 1024, calld_max_recv_size = 4194304,
             calld_recv_message = None, next_recv_message_ready = None \<rparr>
          \<lparr> op_send_message = Some \<lparr> stream_length = 10 \<rparr>, op_recv_message = Some 0,
             op_recv_message_ready = Some (CLOSURE 1) \<rparr>)) \<and>
   next_recv_message_ready
     (fst (start_transport_stream_op
          \<lparr> calld_max_send_size = 1024, calld_max_recv_size = 4194304,
             calld_recv_message = None, next_recv_message_ready = None \<rparr>
          \<lparr> op_send_message = Some \<lparr> stream_length = 10 \<rparr>, op_recv_message = Some 0,
             op_recv_message_ready = Some (CLOSURE 1) \<rparr>)) = Some (CLOSURE 1)"
proof -
  have chk: "\<not> (scast (1024 :: c_int) :: size_t) < ucast (10 :: uint32_t)"
    by simp
  have a: "CALL_NEXT_OP \<lparr> op_send_message = Some \<lparr> stream_length = 10 \<rparr>, op_recv_message = Some 0,
                   op_recv_message_ready = Some CALLD_RECV_MESSAGE_READY \<rparr>
     \<in> set (snd (start_transport_stream_op
          \<lparr> calld_max_send_size = 1024, calld_max_recv_size = 4194304,
             calld_recv_message = None, next_recv_message_ready = None \<rparr>
          \<lparr> op_send_message = Some \<lparr> stream_length = 10 \<rparr>, op_recv_message = Some 0,
             op_recv_message_ready = Some (CLOSURE 1) \<rparr>))"
    using chk by (simp add: start_transport_stream_op_def Let_def)
  from forwarded_op_frame [OF a] a show ?thesis by simp
qed

subsection \<open>Channel-level initialisation\<close>

lemma loop_send:
  "chand_max_send_size (init_channel_elem_loop args chand) =
     (if filter (\<lambda>a. key a = GRPC_ARG_MAX_SEND_MESSAGE_LENGTH) args = []
      then chand_max_send_size chand
      else grpc_channel_arg_get_integer
             (last (filter (\<lambda>a. key a = GRPC_ARG_MAX_SEND_MESSAGE_LENGTH) args))
             \<lparr> default_value = DEFAULT_MAX_SEND_MESSAGE_LENGTH,
                min_value = 0, max_value = INT_MAX \<rparr>)"
  by (induction args arbitrary: chand) (simp_all add: Let_def)

lemma loop_recv:
  "chand_max_recv_size (init_channel_elem_loop args chand) =
     (if filter (\<lambda>a. key a = GRPC_ARG_MAX_RECEIVE_MESSAGE_LENGTH) args = []
      then chand_max_recv_size chand
      else grpc_channel_arg_get_integer
             (last (filter (\<lambda>a. key a = GRPC_ARG_MAX_RECEIVE_MESSAGE_LENGTH) args))
             \<lparr> default_value = DEFAULT_MAX_RECV_MESSAGE_LENGTH,
                min_value = 0, max_value = INT_MAX \<rparr>)"
  by (induction args arbitrary: chand) (simp_all add: Let_def)

lemma loop_table:
  "method_limit_table (init_channel_elem_loop args chand) = method_limit_table chand"
  by (induction args arbitrary: chand) (simp_all add: Let_def)

lemma init_channel_elem_Inr:
  "init_channel_elem args = Inr chand \<Longrightarrow>
     \<not> is_last args \<and>
     chand_max_send_size chand =
       chand_max_send_size (init_channel_elem_loop (channel_args args)
         \<lparr> chand_max_send_size = DEFAULT_MAX_SEND_MESSAGE_LENGTH,
            chand_max_recv_size = DEFAULT_MAX_RECV_MESSAGE_LENGTH,
            method_limit_table = None \<rparr>) \<and>
     chand_max_recv_size chand =
       chand_max_recv_size (init_channel_elem_loop (channel_args args)
         \<lparr> chand_max_send_size = DEFAULT_MAX_SEND_MESSAGE_LENGTH,
            chand_max_recv_size = DEFAULT_MAX_RECV_MESSAGE_LENGTH,
            method_limit_table = None \<rparr>)"
  by (auto simp: init_channel_elem_def Let_def
      split: if_splits option.splits grpc_arg_value.splits)

lemma init_channel_elem_send:
  "init_channel_elem args = Inr chand \<Longrightarrow>
     chand_max_send_size chand =
     (if filter (\<lambda>a. key a = GRPC_ARG_MAX_SEND_MESSAGE_LENGTH) (channel_args args) = []
      then DEFAULT_MAX_SEND_MESSAGE_LENGTH
      else grpc_channel_arg_get_integer
             (last (filter (\<lambda>a. key a = GRPC_ARG_MAX_SEND_MESSAGE_LENGTH) (channel_args args)))
             \<lparr> default_value = DEFAULT_MAX_SEND_MESSAGE_LENGTH,
                min_value = 0, max_value = INT_MAX \<rparr>)"
  using init_channel_elem_Inr [of args chand] by (simp add: loop_send)

lemma init_channel_elem_recv:
  "init_channel_elem args = Inr chand \<Longrightarrow>
     chand_max_recv_size chand =
     (if filter (\<lambda>a. key a = GRPC_ARG_MAX_RECEIVE_MESSAGE_LENGTH) (channel_args args) = []
      then DEFAULT_MAX_RECV_MESSAGE_LENGTH
      else grpc_channel_arg_get_integer
             (last (filter (\<lambda>a. key a = GRPC_ARG_MAX_RECEIVE_MESSAGE_LENGTH) (channel_args args)))
             \<lparr> default_value = DEFAULT_MAX_RECV_MESSAGE_LENGTH,
                min_value = 0, max_value = INT_MAX \<rparr>)"
  using init_channel_elem_Inr [of args chand] by (simp add: loop_recv)

lemma get_integer_clamped:
  "arg_value a = GRPC_ARG_INTEGER v \<Longrightarrow>
     sint (grpc_channel_arg_get_integer a
             \<lparr> default_value = d, min_value = 0, max_value = INT_MAX \<rparr>) =
       max 0 (min 2147483647 (sint v))"
proof -
  assume a: "arg_value a = GRPC_ARG_INTEGER v"
  have "sint v < 2 ^ (LENGTH(32) - 1)" by (rule sint_lt)
  then have le: "sint v \<le> 2147483647" by simp
  have im: "sint INT_MAX = 2147483647" by (simp add: INT_MAX_def)
  show ?thesis
    using a le im
    by (auto simp: grpc_channel_arg_get_integer_def word_sless_alt)
qed

lemma init_channel_elem_fails_iff:
  "init_channel_elem args = Inl f \<longleftrightarrow>
     f = GPR_ASSERT_FAILED \<and>
     (is_last args \<or>
      (\<exists>a. grpc_channel_args_find (channel_args args) GRPC_ARG_SERVICE_CONFIG = Some a \<and>
           (\<forall>p. arg_value a \<noteq> GRPC_ARG_POINTER p)))"
  by (auto simp: init_channel_elem_def Let_def split: option.splits grpc_arg_value.splits)


lemma filter_last_occurrence:
  "P a \<Longrightarrow> \<forall>b \<in> set post. \<not> P b \<Longrightarrow>
     filter P (pre @ a # post) \<noteq> [] \<and> last (filter P (pre @ a # post)) = a"
  by (simp add: filter_empty_conv [THEN iffD2])

text \<open>
  C10.  When a size key occurs more than once in the channel arguments, the loop visits
  all entries in order and the channel limit is the clamped value of the last occurrence;
  the occurrences before it have no effect.
\<close>

theorem last_occurrence_wins:
  "init_channel_elem args = Inr chand \<Longrightarrow>
     (\<forall>pre a post.
        channel_args args = pre @ a # post \<and> key a = GRPC_ARG_MAX_SEND_MESSAGE_LENGTH \<and>
        (\<forall>b \<in> set post. key b \<noteq> GRPC_ARG_MAX_SEND_MESSAGE_LENGTH) \<longrightarrow>
        chand_max_send_size chand =
          grpc_channel_arg_get_integer a
            \<lparr> default_value = DEFAULT_MAX_SEND_MESSAGE_LENGTH,
               min_value = 0, max_value = INT_MAX \<rparr> \<and>
        (\<forall>v. arg_value a = GRPC_ARG_INTEGER v \<longrightarrow>
           sint (chand_max_send_size chand) = max 0 (min 2147483647 (sint v)))) \<and>
     (\<forall>pre a post.
        channel_args args = pre @ a # post \<and> key a = GRPC_ARG_MAX_RECEIVE_MESSAGE_LENGTH \<and>
        (\<forall>b \<in> set post. key b \<noteq> GRPC_ARG_MAX_RECEIVE_MESSAGE_LENGTH) \<longrightarrow>
        chand_max_recv_size chand =
          grpc_channel_arg_get_integer a
            \<lparr> default_value = DEFAULT_MAX_RECV_MESSAGE_LENGTH,
               min_value = 0, max_value = INT_MAX \<rparr> \<and>
        (\<forall>v. arg_value a = GRPC_ARG_INTEGER v \<longrightarrow>
           sint (chand_max_recv_size chand) = max 0 (min 2147483647 (sint v))))"
proof (intro conjI allI impI)
  fix pre a post
  assume run: "init_channel_elem args = Inr chand"
    and h: "channel_args args = pre @ a # post \<and> key a = GRPC_ARG_MAX_SEND_MESSAGE_LENGTH \<and>
        (\<forall>b \<in> set post. key b \<noteq> GRPC_ARG_MAX_SEND_MESSAGE_LENGTH)"
  from h have "filter (\<lambda>a. key a = GRPC_ARG_MAX_SEND_MESSAGE_LENGTH) (pre @ a # post) \<noteq> [] \<and>
      last (filter (\<lambda>a. key a = GRPC_ARG_MAX_SEND_MESSAGE_LENGTH) (pre @ a # post)) = a"
    by (intro filter_last_occurrence) simp_all
  with h show s: "chand_max_send_size chand =
          grpc_channel_arg_get_integer a
            \<lparr> default_value = DEFAULT_MAX_SEND_MESSAGE_LENGTH,
               min_value = 0, max_value = INT_MAX \<rparr>"
    using init_channel_elem_send [OF run] by simp
  fix v
  assume "arg_value a = GRPC_ARG_INTEGER v"
  then show "sint (chand_max_send_size chand) = max 0 (min 2147483647 (sint v))"
    unfolding s by (rule get_integer_clamped)
next
  fix pre a post
  assume run: "init_channel_elem args = Inr chand"
    and h: "channel_args args = pre @ a # post \<and> key a = GRPC_ARG_MAX_RECEIVE_MESSAGE_LENGTH \<and>
        (\<forall>b \<in> set post. key b \<noteq> GRPC_ARG_MAX_RECEIVE_MESSAGE_LENGTH)"
  from h have "filter (\<lambda>a. key a = GRPC_ARG_MAX_RECEIVE_MESSAGE_LENGTH) (pre @ a # post) \<noteq> [] \<and>
      last (filter (\<lambda>a. key a = GRPC_ARG_MAX_RECEIVE_MESSAGE_LENGTH) (pre @ a # post)) = a"
    by (intro filter_last_occurrence) simp_all
  with h show s: "chand_max_recv_size chand =
          grpc_channel_arg_get_integer a
            \<lparr> default_value = DEFAULT_MAX_RECV_MESSAGE_LENGTH,
               min_value = 0, max_value = INT_MAX \<rparr>"
    using init_channel_elem_recv [OF run] by simp
  fix v
  assume "arg_value a = GRPC_ARG_INTEGER v"
  then show "sint (chand_max_recv_size chand) = max 0 (min 2147483647 (sint v))"
    unfolding s by (rule get_integer_clamped)
qed

theorem last_occurrence_wins_witness:
  "init_channel_elem
     \<lparr> channel_args =
         [\<lparr> key = ''max_send_message_length'', arg_value = GRPC_ARG_INTEGER 10 \<rparr>,
          \<lparr> key = ''max_receive_message_length'', arg_value = GRPC_ARG_INTEGER 7 \<rparr>,
          \<lparr> key = ''max_send_message_length'', arg_value = GRPC_ARG_INTEGER 20 \<rparr>],
        is_last = False \<rparr> =
     Inr \<lparr> chand_max_send_size = 20, chand_max_recv_size = 7, method_limit_table = None \<rparr> \<and>
   sint (20 :: c_int) = max 0 (min 2147483647 (sint (20 :: c_int)))"
proof -
  have run: "init_channel_elem
     \<lparr> channel_args =
         [\<lparr> key = ''max_send_message_length'', arg_value = GRPC_ARG_INTEGER 10 \<rparr>,
          \<lparr> key = ''max_receive_message_length'', arg_value = GRPC_ARG_INTEGER 7 \<rparr>,
          \<lparr> key = ''max_send_message_length'', arg_value = GRPC_ARG_INTEGER 20 \<rparr>],
        is_last = False \<rparr> =
     Inr \<lparr> chand_max_send_size = 20, chand_max_recv_size = 7, method_limit_table = None \<rparr>"
    by (simp add: init_channel_elem_def Let_def grpc_channel_args_find_def
        grpc_channel_arg_get_integer_def GRPC_ARG_MAX_SEND_MESSAGE_LENGTH_def
        GRPC_ARG_MAX_RECEIVE_MESSAGE_LENGTH_def GRPC_ARG_SERVICE_CONFIG_def
        INT_MAX_def word_sless_alt)
  have h: "channel_args \<lparr> channel_args =
         [\<lparr> key = ''max_send_message_length'', arg_value = GRPC_ARG_INTEGER 10 \<rparr>,
          \<lparr> key = ''max_receive_message_length'', arg_value = GRPC_ARG_INTEGER 7 \<rparr>,
          \<lparr> key = ''max_send_message_length'', arg_value = GRPC_ARG_INTEGER 20 \<rparr>],
        is_last = False \<rparr> =
       [\<lparr> key = ''max_send_message_length'', arg_value = GRPC_ARG_INTEGER 10 \<rparr>,
        \<lparr> key = ''max_receive_message_length'', arg_value = GRPC_ARG_INTEGER 7 \<rparr>] @
       \<lparr> key = ''max_send_message_length'', arg_value = GRPC_ARG_INTEGER 20 \<rparr> # [] \<and>
     key \<lparr> key = ''max_send_message_length'', arg_value = GRPC_ARG_INTEGER 20 \<rparr> =
       GRPC_ARG_MAX_SEND_MESSAGE_LENGTH \<and>
     (\<forall>b \<in> set []. key b \<noteq> GRPC_ARG_MAX_SEND_MESSAGE_LENGTH)"
    by (simp add: GRPC_ARG_MAX_SEND_MESSAGE_LENGTH_def)
  have v: "arg_value \<lparr> key = ''max_send_message_length'', arg_value = GRPC_ARG_INTEGER 20 \<rparr> =
      GRPC_ARG_INTEGER 20"
    by simp
  from last_occurrence_wins [OF run, THEN conjunct1, THEN spec, THEN spec, THEN spec,
      THEN mp, OF h, THEN conjunct2, THEN spec, THEN mp, OF v] run
  show ?thesis by simp
qed

lemma filter_two_keys:
  "filter (\<lambda>a. key a = k1 \<or> key a = k2) xs = filter (\<lambda>a. key a = k1 \<or> key a = k2) ys \<Longrightarrow>
     filter (\<lambda>a. key a = k1) xs = filter (\<lambda>a. key a = k1) ys \<and>
     filter (\<lambda>a. key a = k2) xs = filter (\<lambda>a. key a = k2) ys"
proof -
  assume e: "filter (\<lambda>a. key a = k1 \<or> key a = k2) xs = filter (\<lambda>a. key a = k1 \<or> key a = k2) ys"
  have a: "\<And>zs. filter (\<lambda>a. key a = k1) zs =
      filter (\<lambda>a. key a = k1) (filter (\<lambda>a. key a = k1 \<or> key a = k2) zs)"
    by (simp add: conj_commute cong: conj_cong)
  have b: "\<And>zs. filter (\<lambda>a. key a = k2) zs =
      filter (\<lambda>a. key a = k2) (filter (\<lambda>a. key a = k1 \<or> key a = k2) zs)"
    by (simp add: conj_commute cong: conj_cong)
  show ?thesis
    using a [of xs] a [of ys] b [of xs] b [of ys] e by simp
qed

lemma clamped_in_range:
  "sint (x :: c_int) = max 0 (min 2147483647 (sint v)) \<Longrightarrow> 0 \<le>s x \<and> x \<le>s INT_MAX"
  by (simp add: word_sle_eq INT_MAX_def)

text \<open>
  C6.  Channel-level initialisation takes its two limits from two integer keys and from
  nothing else in the channel arguments: \<open>max_send_message_length\<close>, without which the
  send limit is absent, and \<open>max_receive_message_length\<close>, without which the receive
  limit is 4194304.  A value supplied under a key becomes the limit after clamping to the
  range from 0 to \<open>INT_MAX\<close>.
\<close>

theorem init_channel_elem_reads_two_keys:
  "init_channel_elem args = Inr chand \<Longrightarrow>
     ((\<forall>a \<in> set (channel_args args). key a \<noteq> GRPC_ARG_MAX_SEND_MESSAGE_LENGTH) \<longrightarrow>
        chand_max_send_size chand = - 1 \<and> cap_of (chand_max_send_size chand) = None) \<and>
     ((\<forall>a \<in> set (channel_args args). key a \<noteq> GRPC_ARG_MAX_RECEIVE_MESSAGE_LENGTH) \<longrightarrow>
        chand_max_recv_size chand = 4194304 \<and>
        cap_of (chand_max_recv_size chand) = Some 4194304) \<and>
     (\<forall>v. filter (\<lambda>a. key a = GRPC_ARG_MAX_SEND_MESSAGE_LENGTH) (channel_args args) \<noteq> [] \<and>
          arg_value (last (filter (\<lambda>a. key a = GRPC_ARG_MAX_SEND_MESSAGE_LENGTH)
                       (channel_args args))) = GRPC_ARG_INTEGER v \<longrightarrow>
        sint (chand_max_send_size chand) = max 0 (min 2147483647 (sint v)) \<and>
        0 \<le>s chand_max_send_size chand \<and> chand_max_send_size chand \<le>s INT_MAX) \<and>
     (\<forall>v. filter (\<lambda>a. key a = GRPC_ARG_MAX_RECEIVE_MESSAGE_LENGTH) (channel_args args) \<noteq> [] \<and>
          arg_value (last (filter (\<lambda>a. key a = GRPC_ARG_MAX_RECEIVE_MESSAGE_LENGTH)
                       (channel_args args))) = GRPC_ARG_INTEGER v \<longrightarrow>
        sint (chand_max_recv_size chand) = max 0 (min 2147483647 (sint v)) \<and>
        0 \<le>s chand_max_recv_size chand \<and> chand_max_recv_size chand \<le>s INT_MAX) \<and>
     (\<forall>args' chand'.
        filter (\<lambda>a. key a = GRPC_ARG_MAX_SEND_MESSAGE_LENGTH \<or>
                    key a = GRPC_ARG_MAX_RECEIVE_MESSAGE_LENGTH) (channel_args args') =
        filter (\<lambda>a. key a = GRPC_ARG_MAX_SEND_MESSAGE_LENGTH \<or>
                    key a = GRPC_ARG_MAX_RECEIVE_MESSAGE_LENGTH) (channel_args args) \<and>
        init_channel_elem args' = Inr chand' \<longrightarrow>
        chand_max_send_size chand' = chand_max_send_size chand \<and>
        chand_max_recv_size chand' = chand_max_recv_size chand)"
proof (intro conjI allI impI)
  assume run: "init_channel_elem args = Inr chand"
    and n: "\<forall>a \<in> set (channel_args args). key a \<noteq> GRPC_ARG_MAX_SEND_MESSAGE_LENGTH"
  from n have "filter (\<lambda>a. key a = GRPC_ARG_MAX_SEND_MESSAGE_LENGTH) (channel_args args) = []"
    by (simp add: filter_empty_conv)
  with init_channel_elem_send [OF run]
  show s: "chand_max_send_size chand = - 1"
    by (simp add: DEFAULT_MAX_SEND_MESSAGE_LENGTH_def)
  show "cap_of (chand_max_send_size chand) = None"
    unfolding s by (simp add: cap_of_def word_sle_eq)
next
  assume run: "init_channel_elem args = Inr chand"
    and n: "\<forall>a \<in> set (channel_args args). key a \<noteq> GRPC_ARG_MAX_RECEIVE_MESSAGE_LENGTH"
  from n have "filter (\<lambda>a. key a = GRPC_ARG_MAX_RECEIVE_MESSAGE_LENGTH) (channel_args args) = []"
    by (simp add: filter_empty_conv)
  with init_channel_elem_recv [OF run]
  show r: "chand_max_recv_size chand = 4194304"
    by (simp add: DEFAULT_MAX_RECV_MESSAGE_LENGTH_def)
  show "cap_of (chand_max_recv_size chand) = Some 4194304"
    unfolding r by (simp add: cap_of_def word_sle_eq)
next
  fix v
  assume run: "init_channel_elem args = Inr chand"
    and h: "filter (\<lambda>a. key a = GRPC_ARG_MAX_SEND_MESSAGE_LENGTH) (channel_args args) \<noteq> [] \<and>
          arg_value (last (filter (\<lambda>a. key a = GRPC_ARG_MAX_SEND_MESSAGE_LENGTH)
                       (channel_args args))) = GRPC_ARG_INTEGER v"
  from h init_channel_elem_send [OF run]
  have "chand_max_send_size chand =
      grpc_channel_arg_get_integer
        (last (filter (\<lambda>a. key a = GRPC_ARG_MAX_SEND_MESSAGE_LENGTH) (channel_args args)))
        \<lparr> default_value = DEFAULT_MAX_SEND_MESSAGE_LENGTH, min_value = 0, max_value = INT_MAX \<rparr>"
    by simp
  with h show c: "sint (chand_max_send_size chand) = max 0 (min 2147483647 (sint v))"
    by (simp add: get_integer_clamped)
  from clamped_in_range [OF c]
  show "0 \<le>s chand_max_send_size chand" and "chand_max_send_size chand \<le>s INT_MAX"
    by simp_all
next
  fix v
  assume run: "init_channel_elem args = Inr chand"
    and h: "filter (\<lambda>a. key a = GRPC_ARG_MAX_RECEIVE_MESSAGE_LENGTH) (channel_args args) \<noteq> [] \<and>
          arg_value (last (filter (\<lambda>a. key a = GRPC_ARG_MAX_RECEIVE_MESSAGE_LENGTH)
                       (channel_args args))) = GRPC_ARG_INTEGER v"
  from h init_channel_elem_recv [OF run]
  have "chand_max_recv_size chand =
      grpc_channel_arg_get_integer
        (last (filter (\<lambda>a. key a = GRPC_ARG_MAX_RECEIVE_MESSAGE_LENGTH) (channel_args args)))
        \<lparr> default_value = DEFAULT_MAX_RECV_MESSAGE_LENGTH, min_value = 0, max_value = INT_MAX \<rparr>"
    by simp
  with h show c: "sint (chand_max_recv_size chand) = max 0 (min 2147483647 (sint v))"
    by (simp add: get_integer_clamped)
  from clamped_in_range [OF c]
  show "0 \<le>s chand_max_recv_size chand" and "chand_max_recv_size chand \<le>s INT_MAX"
    by simp_all
next
  fix args' chand'
  assume run: "init_channel_elem args = Inr chand"
    and h: "filter (\<lambda>a. key a = GRPC_ARG_MAX_SEND_MESSAGE_LENGTH \<or>
                    key a = GRPC_ARG_MAX_RECEIVE_MESSAGE_LENGTH) (channel_args args') =
        filter (\<lambda>a. key a = GRPC_ARG_MAX_SEND_MESSAGE_LENGTH \<or>
                    key a = GRPC_ARG_MAX_RECEIVE_MESSAGE_LENGTH) (channel_args args) \<and>
        init_channel_elem args' = Inr chand'"
  from h have run': "init_channel_elem args' = Inr chand'" by simp
  from h filter_two_keys [of GRPC_ARG_MAX_SEND_MESSAGE_LENGTH GRPC_ARG_MAX_RECEIVE_MESSAGE_LENGTH
      "channel_args args'" "channel_args args"]
  have fs: "filter (\<lambda>a. key a = GRPC_ARG_MAX_SEND_MESSAGE_LENGTH) (channel_args args') =
      filter (\<lambda>a. key a = GRPC_ARG_MAX_SEND_MESSAGE_LENGTH) (channel_args args)"
    and fr: "filter (\<lambda>a. key a = GRPC_ARG_MAX_RECEIVE_MESSAGE_LENGTH) (channel_args args') =
      filter (\<lambda>a. key a = GRPC_ARG_MAX_RECEIVE_MESSAGE_LENGTH) (channel_args args)"
    by simp_all
  show "chand_max_send_size chand' = chand_max_send_size chand"
    unfolding init_channel_elem_send [OF run] init_channel_elem_send [OF run'] fs ..
  show "chand_max_recv_size chand' = chand_max_recv_size chand"
    unfolding init_channel_elem_recv [OF run] init_channel_elem_recv [OF run'] fr ..
qed

theorem init_channel_elem_reads_two_keys_witness:
  "init_channel_elem
     \<lparr> channel_args =
         [\<lparr> key = ''max_send_message_length'', arg_value = GRPC_ARG_INTEGER (- 5) \<rparr>,
          \<lparr> key = ''user_agent'', arg_value = GRPC_ARG_STRING ''test'' \<rparr>],
        is_last = False \<rparr> =
     Inr \<lparr> chand_max_send_size = 0, chand_max_recv_size = 4194304,
           method_limit_table = None \<rparr> \<and>
   cap_of (4194304 :: c_int) = Some 4194304 \<and>
   sint (0 :: c_int) = max 0 (min 2147483647 (sint (- 5 :: c_int)))"
proof -
  have run: "init_channel_elem
     \<lparr> channel_args =
         [\<lparr> key = ''max_send_message_length'', arg_value = GRPC_ARG_INTEGER (- 5) \<rparr>,
          \<lparr> key = ''user_agent'', arg_value = GRPC_ARG_STRING ''test'' \<rparr>],
        is_last = False \<rparr> =
     Inr \<lparr> chand_max_send_size = 0, chand_max_recv_size = 4194304,
           method_limit_table = None \<rparr>"
    by (simp add: init_channel_elem_def Let_def grpc_channel_args_find_def
        grpc_channel_arg_get_integer_def GRPC_ARG_MAX_SEND_MESSAGE_LENGTH_def
        GRPC_ARG_MAX_RECEIVE_MESSAGE_LENGTH_def GRPC_ARG_SERVICE_CONFIG_def
        DEFAULT_MAX_RECV_MESSAGE_LENGTH_def INT_MAX_def word_sless_alt)
  have n: "\<forall>a \<in> set (channel_args \<lparr> channel_args =
         [\<lparr> key = ''max_send_message_length'', arg_value = GRPC_ARG_INTEGER (- 5) \<rparr>,
          \<lparr> key = ''user_agent'', arg_value = GRPC_ARG_STRING ''test'' \<rparr>],
        is_last = False \<rparr>). key a \<noteq> GRPC_ARG_MAX_RECEIVE_MESSAGE_LENGTH"
    by (simp add: GRPC_ARG_MAX_RECEIVE_MESSAGE_LENGTH_def)
  have h: "filter (\<lambda>a. key a = GRPC_ARG_MAX_SEND_MESSAGE_LENGTH) (channel_args \<lparr> channel_args =
         [\<lparr> key = ''max_send_message_length'', arg_value = GRPC_ARG_INTEGER (- 5) \<rparr>,
          \<lparr> key = ''user_agent'', arg_value = GRPC_ARG_STRING ''test'' \<rparr>],
        is_last = False \<rparr>) \<noteq> [] \<and>
      arg_value (last (filter (\<lambda>a. key a = GRPC_ARG_MAX_SEND_MESSAGE_LENGTH)
        (channel_args \<lparr> channel_args =
         [\<lparr> key = ''max_send_message_length'', arg_value = GRPC_ARG_INTEGER (- 5) \<rparr>,
          \<lparr> key = ''user_agent'', arg_value = GRPC_ARG_STRING ''test'' \<rparr>],
        is_last = False \<rparr>))) = GRPC_ARG_INTEGER (- 5)"
    by (simp add: GRPC_ARG_MAX_SEND_MESSAGE_LENGTH_def)
  note inst = init_channel_elem_reads_two_keys [OF run]
  from inst [THEN conjunct2, THEN conjunct1, THEN mp, OF n]
    inst [THEN conjunct2, THEN conjunct2, THEN conjunct1, THEN spec, THEN mp, OF h] run
  show ?thesis by simp
qed

text \<open>
  C7.  With the filter as the last element of the channel stack the constructor stops at
  its first assertion, so no channel data exists and no call can be initialised.  In any
  other position it succeeds when the channel arguments hold no service configuration or
  one of pointer type; a service configuration of another type stops it at its second
  assertion.
\<close>

theorem init_channel_elem_assertions:
  "(is_last args \<longrightarrow> init_channel_elem args = Inl GPR_ASSERT_FAILED) \<and>
   (\<not> is_last args \<and>
    (\<forall>a. grpc_channel_args_find (channel_args args) GRPC_ARG_SERVICE_CONFIG = Some a \<longrightarrow>
         (\<exists>p. arg_value a = GRPC_ARG_POINTER p)) \<longrightarrow>
      (\<exists>chand. init_channel_elem args = Inr chand)) \<and>
   (\<forall>a. grpc_channel_args_find (channel_args args) GRPC_ARG_SERVICE_CONFIG = Some a \<and>
        (\<forall>p. arg_value a \<noteq> GRPC_ARG_POINTER p) \<longrightarrow>
      init_channel_elem args = Inl GPR_ASSERT_FAILED)"
proof (intro conjI allI impI)
  assume "is_last args"
  then show "init_channel_elem args = Inl GPR_ASSERT_FAILED"
    using init_channel_elem_fails_iff [of args GPR_ASSERT_FAILED] by simp
next
  assume a: "\<not> is_last args \<and>
    (\<forall>a. grpc_channel_args_find (channel_args args) GRPC_ARG_SERVICE_CONFIG = Some a \<longrightarrow>
         (\<exists>p. arg_value a = GRPC_ARG_POINTER p))"
  show "\<exists>chand. init_channel_elem args = Inr chand"
  proof (cases "init_channel_elem args")
    case (Inl f)
    then show ?thesis using a init_channel_elem_fails_iff [of args f] by auto
  next
    case (Inr chand)
    then show ?thesis by simp
  qed
next
  fix a
  assume "grpc_channel_args_find (channel_args args) GRPC_ARG_SERVICE_CONFIG = Some a \<and>
        (\<forall>p. arg_value a \<noteq> GRPC_ARG_POINTER p)"
  then show "init_channel_elem args = Inl GPR_ASSERT_FAILED"
    using init_channel_elem_fails_iff [of args GPR_ASSERT_FAILED] by blast
qed

theorem init_channel_elem_assertions_witness:
  "init_channel_elem \<lparr> channel_args = [], is_last = True \<rparr> = Inl GPR_ASSERT_FAILED \<and>
   init_channel_elem
     \<lparr> channel_args =
         [\<lparr> key = ''service_config'',
            arg_value = GRPC_ARG_POINTER
              [(''/svc/Big'', \<lparr> max_request_message_bytes = Some 1024,
                                max_response_message_bytes = None \<rparr>)] \<rparr>],
        is_last = False \<rparr> =
     Inr \<lparr> chand_max_send_size = - 1, chand_max_recv_size = 4194304,
           method_limit_table =
             Some [(''/svc/Big'', \<lparr> limits_max_send_size = 1024,
                                    limits_max_recv_size = - 1 \<rparr>)] \<rparr>"
proof -
  have l: "is_last \<lparr> channel_args = [], is_last = True \<rparr>" by simp
  have r: "init_channel_elem
     \<lparr> channel_args =
         [\<lparr> key = ''service_config'',
            arg_value = GRPC_ARG_POINTER
              [(''/svc/Big'', \<lparr> max_request_message_bytes = Some 1024,
                                max_response_message_bytes = None \<rparr>)] \<rparr>],
        is_last = False \<rparr> =
     Inr \<lparr> chand_max_send_size = - 1, chand_max_recv_size = 4194304,
           method_limit_table =
             Some [(''/svc/Big'', \<lparr> limits_max_send_size = 1024,
                                    limits_max_recv_size = - 1 \<rparr>)] \<rparr>"
    by (simp add: init_channel_elem_def Let_def grpc_channel_args_find_def
        GRPC_ARG_MAX_SEND_MESSAGE_LENGTH_def GRPC_ARG_MAX_RECEIVE_MESSAGE_LENGTH_def
        GRPC_ARG_SERVICE_CONFIG_def DEFAULT_MAX_SEND_MESSAGE_LENGTH_def
        DEFAULT_MAX_RECV_MESSAGE_LENGTH_def grpc_method_config_table_convert_def
        method_config_convert_value_def)
  from init_channel_elem_assertions [THEN conjunct1, THEN mp, OF l] r
  show ?thesis by simp
qed

theorem mistyped_service_config_counterexample:
  "init_channel_elem
     \<lparr> channel_args = [\<lparr> key = ''service_config'', arg_value = GRPC_ARG_STRING ''{}'' \<rparr>],
        is_last = False \<rparr> = Inl GPR_ASSERT_FAILED"
  by (simp add: init_channel_elem_def Let_def grpc_channel_args_find_def
      GRPC_ARG_SERVICE_CONFIG_def)

end
